theory Spec2Isabelle
  imports Main "HOL-Library.Sublist" "HOL-Library.AList"
begin

section \<open>JavaScript values used by the adapter\<close>

text \<open>
  The configuration values imported from \<^verbatim>\<open>@/app/config\<close> are
  \<^verbatim>\<open>string | undefined\<close>: \<open>None\<close> is \<^verbatim>\<open>undefined\<close>. A string is truthy
  when it is not empty.
\<close>

definition truthy :: "string option \<Rightarrow> bool" where
  "truthy v = (case v of None \<Rightarrow> False | Some s \<Rightarrow> s \<noteq> [])"

text \<open>
  The exported flag \<^verbatim>\<open>IS_DEEPSEEK\<close> is the value of an \<^verbatim>\<open>&&\<close> chain, so it is
  \<^verbatim>\<open>undefined\<close>, a string or a boolean.
\<close>

datatype js_value = JSUndefined | JSString string | JSBoolean bool

fun js_truthy :: "js_value \<Rightarrow> bool" where
  "js_truthy JSUndefined = False"
| "js_truthy (JSString s) = (s \<noteq> [])"
| "js_truthy (JSBoolean b) = b"

fun js_of_string :: "string option \<Rightarrow> js_value" where
  "js_of_string None = JSUndefined"
| "js_of_string (Some s) = JSString s"

text \<open>\<^verbatim>\<open>a && b\<close> and \<^verbatim>\<open>a || b\<close> return one of their operands.\<close>

definition js_and :: "js_value \<Rightarrow> js_value \<Rightarrow> js_value" where
  "js_and a b = (if js_truthy a then b else a)"

definition js_or :: "js_value \<Rightarrow> js_value \<Rightarrow> js_value" where
  "js_or a b = (if js_truthy a then a else b)"

text \<open>\<^verbatim>\<open>s.startsWith(p)\<close>, \<^verbatim>\<open>s.endsWith(p)\<close> and \<^verbatim>\<open>s.includes(p)\<close>.\<close>

definition startsWith :: "string \<Rightarrow> string \<Rightarrow> bool" where
  "startsWith s p = prefix p s"

definition endsWith :: "string \<Rightarrow> string \<Rightarrow> bool" where
  "endsWith s p = suffix p s"

definition includes_str :: "string \<Rightarrow> string \<Rightarrow> bool" where
  "includes_str s p = sublist p s"

text \<open>\<^verbatim>\<open>x?.includes(p)\<close>: \<^verbatim>\<open>undefined\<close> when \<open>x\<close> is \<^verbatim>\<open>undefined\<close>.\<close>

definition includes_opt :: "string option \<Rightarrow> string \<Rightarrow> js_value" where
  "includes_opt x p = (case x of None \<Rightarrow> JSUndefined | Some s \<Rightarrow> JSBoolean (includes_str s p))"


section \<open>The platform's URL class\<close>

text \<open>
  \<^verbatim>\<open>new URL(url)\<close>, the \<^verbatim>\<open>pathname\<close> getter and setter and \<^verbatim>\<open>toString()\<close> belong to
  the JavaScript platform, not to this repository. They are a parameter of the model:
  \<open>url_parse\<close> is the constructor (\<open>None\<close> when it throws a TypeError), \<open>'u\<close> the type of
  URL objects.
\<close>

record 'u url_api =
  url_parse :: "string \<Rightarrow> 'u option"
  url_pathname :: "'u \<Rightarrow> string"
  url_set_pathname :: "'u \<Rightarrow> string \<Rightarrow> 'u"
  url_toString :: "'u \<Rightarrow> string"

definition has_http_protocol :: "string \<Rightarrow> bool" where
  "has_http_protocol url = (startsWith url ''http://'' \<or> startsWith url ''https://'')"

text \<open>
  What the proofs about \<^verbatim>\<open>normalizeBaseUrl\<close> need of the URL class, and what the
  URL Standard gives for http and https URLs: after the path of a parsed http(s) URL is set
  to a string ending in \<^verbatim>\<open>/v1\<close>, the serialisation still starts with the protocol, parses
  again, and its path ends in \<^verbatim>\<open>/v1\<close>.
\<close>

definition url_api_ok :: "'u url_api \<Rightarrow> bool" where
  "url_api_ok U = (\<forall>s x q.
      has_http_protocol s \<and> url_parse U s = Some x \<and> endsWith q ''/v1'' \<longrightarrow>
        has_http_protocol (url_toString U (url_set_pathname U x q)) \<and>
        (\<exists>y. url_parse U (url_toString U (url_set_pathname U x q)) = Some y \<and>
             endsWith (url_pathname U y) ''/v1''))"


section \<open>normalizeBaseUrl\<close>

datatype provider = Deepseek | Openai

fun provider_text :: "provider option \<Rightarrow> string" where
  "provider_text None = ''undefined''"
| "provider_text (Some Deepseek) = ''deepseek''"
| "provider_text (Some Openai) = ''openai''"

text \<open>The two \<^verbatim>\<open>console.warn\<close> messages (the error object of the second is left out).\<close>

definition warn_missing_protocol :: "provider option \<Rightarrow> string \<Rightarrow> string" where
  "warn_missing_protocol provider url =
     ''Invalid '' @ provider_text provider @ '' base URL (missing protocol): '' @ url"

definition warn_parse_error :: "provider option \<Rightarrow> string \<Rightarrow> string" where
  "warn_parse_error provider url =
     ''Invalid '' @ provider_text provider @ '' base URL (parse error): '' @ url"

text \<open>
  The function returns its result together with the warnings it logged. Every exit of
  the source is a branch: \<^verbatim>\<open>!url\<close> (undefined or empty), the missing protocol, the
  \<^verbatim>\<open>catch\<close> of a failed parse, the DeepSeek path rewrite, and the unchanged URL.
\<close>

definition normalizeBaseUrl ::
  "'u url_api \<Rightarrow> string option \<Rightarrow> provider option \<Rightarrow> string option \<times> string list" where
  "normalizeBaseUrl U url provider =
     (case url of
        None \<Rightarrow> (None, [])
      | Some u \<Rightarrow>
          if u = [] then (None, [])
          else if \<not> startsWith u ''http://'' \<and> \<not> startsWith u ''https://''
          then (None, [warn_missing_protocol provider u])
          else (case url_parse U u of
                  None \<Rightarrow> (None, [warn_parse_error provider u])
                | Some parsed \<Rightarrow>
                    if provider = Some Deepseek \<and> \<not> endsWith (url_pathname U parsed) ''/v1''
                    then
                      let parsed' = url_set_pathname U parsed
                            (if endsWith (url_pathname U parsed) ''/''
                             then url_pathname U parsed @ ''v1''
                             else url_pathname U parsed @ ''/v1'')
                      in (Some (url_toString U parsed'), [])
                    else (Some u, [])))"


section \<open>Provider selection\<close>

record config =
  OPENAI_BASE_URL :: "string option"
  OPENAI_SECRET_KEY :: "string option"
  DEEPSEEK_API_KEY :: "string option"
  DEEPSEEK_BASE_URL :: "string option"
  AI_SECRET_KEY :: "string option"
  AI_BASE_URL :: "string option"

text \<open>
  \<^verbatim>\<open>createOpenAI({apiKey, baseURL?})\<close> and \<^verbatim>\<open>createDeepSeek({apiKey, baseURL?})\<close> are
  SDK factories; a client is the record of what it was created from.
\<close>

datatype ai_client =
    CreateOpenAI string "string option"
  | CreateDeepSeek string "string option"

definition OPENAI_MODEL :: string where
  "OPENAI_MODEL = ''gpt-5.1''"

definition DEEPSEEK_MODEL :: string where
  "DEEPSEEK_MODEL = ''deepseek-chat''"

text \<open>\<^verbatim>\<open>...x && { baseURL: x }\<close>: the key is present when \<open>x\<close> is truthy.\<close>

definition spread_baseURL :: "string option \<Rightarrow> string option" where
  "spread_baseURL x = (if truthy x then x else None)"

text \<open>What the module computes when it is loaded.\<close>

record selection =
  IS_DEEPSEEK :: js_value
  openai :: "ai_client option"
  deepseek :: "ai_client option"
  aiClient :: "ai_client option"
  MODEL :: string

subsection \<open>The module with URL validation (\<^verbatim>\<open>src/unnamed/part_000\<close>)\<close>

definition normalizedDeepseekBaseUrl :: "'u url_api \<Rightarrow> config \<Rightarrow> string option" where
  "normalizedDeepseekBaseUrl U c = fst (normalizeBaseUrl U (DEEPSEEK_BASE_URL c) (Some Deepseek))"

definition normalizedOpenaiBaseUrl :: "'u url_api \<Rightarrow> config \<Rightarrow> string option" where
  "normalizedOpenaiBaseUrl U c = fst (normalizeBaseUrl U (OPENAI_BASE_URL c) (Some Openai))"

definition safeOpenaiBaseUrl :: "'u url_api \<Rightarrow> config \<Rightarrow> string option" where
  "safeOpenaiBaseUrl U c =
     (case normalizedOpenaiBaseUrl U c of
        None \<Rightarrow> None
      | Some s \<Rightarrow> if s \<noteq> [] \<and> \<not> includes_str s ''deepseek'' then Some s else None)"

definition load_module :: "'u url_api \<Rightarrow> config \<Rightarrow> selection" where
  "load_module U c =
     (let is_deepseek = js_and (js_of_string (DEEPSEEK_API_KEY c))
                               (JSBoolean (truthy (normalizedDeepseekBaseUrl U c)));
          openai_client =
            (case OPENAI_SECRET_KEY c of
               None \<Rightarrow> None
             | Some key \<Rightarrow>
                 if key \<noteq> []
                 then Some (CreateOpenAI key (spread_baseURL (safeOpenaiBaseUrl U c)))
                 else None);
          deepseek_client =
            (case DEEPSEEK_API_KEY c of
               None \<Rightarrow> None
             | Some key \<Rightarrow>
                 if key \<noteq> [] \<and> truthy (normalizedDeepseekBaseUrl U c)
                 then Some (CreateDeepSeek key (normalizedDeepseekBaseUrl U c))
                 else None)
      in \<lparr> IS_DEEPSEEK = is_deepseek,
           openai = openai_client,
           deepseek = deepseek_client,
           aiClient = (if js_truthy is_deepseek then deepseek_client else openai_client),
           MODEL = (if js_truthy is_deepseek then DEEPSEEK_MODEL else OPENAI_MODEL) \<rparr>)"

text \<open>The warnings logged while the module loads, in order.\<close>

definition load_warnings :: "'u url_api \<Rightarrow> config \<Rightarrow> string list" where
  "load_warnings U c =
     snd (normalizeBaseUrl U (DEEPSEEK_BASE_URL c) (Some Deepseek)) @
     snd (normalizeBaseUrl U (OPENAI_BASE_URL c) (Some Openai))"

subsection \<open>The module without URL validation (\<^verbatim>\<open>src/platforms/openai.ts\<close>)\<close>

definition load_module_openai_ts :: "config \<Rightarrow> selection" where
  "load_module_openai_ts c =
     (let is_deepseek = js_and (js_of_string (DEEPSEEK_API_KEY c))
                               (js_or (includes_opt (DEEPSEEK_BASE_URL c) ''deepseek'')
                                      (includes_opt (OPENAI_BASE_URL c) ''deepseek''));
          openai_client =
            (case OPENAI_SECRET_KEY c of
               None \<Rightarrow> None
             | Some key \<Rightarrow>
                 if key \<noteq> []
                 then Some (CreateOpenAI key (spread_baseURL (OPENAI_BASE_URL c)))
                 else None);
          deepseek_client =
            (case AI_SECRET_KEY c of
               None \<Rightarrow> None
             | Some key \<Rightarrow>
                 if key \<noteq> []
                 then Some (CreateDeepSeek key (spread_baseURL (AI_BASE_URL c)))
                 else None)
      in \<lparr> IS_DEEPSEEK = is_deepseek,
           openai = openai_client,
           deepseek = deepseek_client,
           aiClient = (if js_truthy is_deepseek then deepseek_client else openai_client),
           MODEL = (if js_truthy is_deepseek then DEEPSEEK_MODEL else OPENAI_MODEL) \<rparr>)"


section \<open>Collaborators and requests\<close>

datatype content_part = TextPart string | ImagePart string

record message =
  role :: string
  content :: "content_part list"

text \<open>\<^verbatim>\<open>aiClient(MODEL)\<close>: the model handle of a client.\<close>

datatype language_model = LanguageModel ai_client string

record call_args =
  model :: language_model
  messages :: "message list"

record 's object_call_args = call_args +
  schema :: 's

text \<open>A thrown value: \<^verbatim>\<open>new Error(message)\<close>.\<close>

datatype error = Error string

text \<open>
  An object with string values, as \<^verbatim>\<open>Object.entries\<close> lists it: the own keys in
  order, each once.
\<close>

type_synonym js_object = "(string \<times> string) list"

record rate_limit_args =
  ident :: string
  tokens :: "nat option"
  duration :: "string option"

text \<open>
  The collaborators the module imports. \<^verbatim>\<open>removeBase64Prefix\<close>,
  \<^verbatim>\<open>cleanUpAiTextResponse\<close> and \<^verbatim>\<open>_checkRateLimitAndThrow\<close> are functions of this
  repository that are not among the sources at hand; the three completion primitives come
  from the \<^verbatim>\<open>ai\<close> package. All are parameters.
  \<^item> \<open>rate_limit\<close>: \<open>None\<close> when the promise resolves, \<open>Some e\<close> when it rejects with \<open>e\<close>;
  \<^item> \<open>generateText\<close>: the \<^verbatim>\<open>text\<close> of the resolved result, or the rejection;
  \<^item> \<open>streamText\<close>: the fragments \<^verbatim>\<open>textStream\<close> yields, and the error that ends the
    iteration early, if any;
  \<^item> \<open>generateObject\<close>: the \<^verbatim>\<open>object\<close> of the resolved result (\<open>None\<close> for
    \<^verbatim>\<open>null\<close> or \<^verbatim>\<open>undefined\<close>), or the rejection.
\<close>

record 's collaborators =
  removeBase64Prefix :: "string \<Rightarrow> string"
  cleanUpAiTextResponse :: "string \<Rightarrow> string"
  rate_limit :: "rate_limit_args \<Rightarrow> error option"
  generateText :: "call_args \<Rightarrow> error + string"
  streamText :: "call_args \<Rightarrow> string list \<times> error option"
  generateObject :: "'s object_call_args \<Rightarrow> error + js_object option"

text \<open>The calls a query operation makes to the rate limiter and to the provider, in order.\<close>

datatype 's event =
    RateLimitCheck rate_limit_args
  | GenerateTextCall call_args
  | StreamTextCall call_args
  | GenerateObjectCall "'s object_call_args"

fun is_provider_request :: "'s event \<Rightarrow> bool" where
  "is_provider_request (RateLimitCheck a) = False"
| "is_provider_request (GenerateTextCall a) = True"
| "is_provider_request (StreamTextCall a) = True"
| "is_provider_request (GenerateObjectCall a) = True"

text \<open>
  What \<^verbatim>\<open>createStreamableValue('')\<close> ends up holding: the initial value, the values
  pushed by \<^verbatim>\<open>stream.update\<close>, and whether \<^verbatim>\<open>stream.done()\<close> was reached.
\<close>

record streamable =
  initial_value :: string
  updates :: "string list"
  finished :: bool

definition createStreamableValue :: "string \<Rightarrow> streamable" where
  "createStreamableValue v = \<lparr> initial_value = v, updates = [], finished = False \<rparr>"

text \<open>
  \<^verbatim>\<open>Object.entries\<close> and \<^verbatim>\<open>Object.fromEntries\<close>: a later entry with a key already
  present replaces the value and keeps the key's place.
\<close>

definition Object_entries :: "js_object \<Rightarrow> (string \<times> string) list" where
  "Object_entries obj = obj"

definition Object_fromEntries :: "(string \<times> string) list \<Rightarrow> js_object" where
  "Object_fromEntries es = foldl (\<lambda>obj (k, v). AList.update k v obj) [] es"


section \<open>The rate-limit check\<close>

text \<open>\<^verbatim>\<open>isBatch?: boolean\<close> is \<open>None\<close> when the argument is left out.\<close>

definition rate_limit_request :: "bool option \<Rightarrow> rate_limit_args" where
  "rate_limit_request isBatch =
     (if isBatch = Some True
      then \<lparr> ident = ''openai-image-query'', tokens = Some 1200, duration = Some ''1d'' \<rparr>
      else \<lparr> ident = ''openai-image-query'', tokens = None, duration = None \<rparr>)"

definition checkRateLimitAndThrow ::
  "'s collaborators \<Rightarrow> bool option \<Rightarrow> (error + unit) \<times> 's event list" where
  "checkRateLimitAndThrow E isBatch =
     (case rate_limit E (rate_limit_request isBatch) of
        Some e \<Rightarrow> (Inl e, [RateLimitCheck (rate_limit_request isBatch)])
      | None \<Rightarrow> (Inr (), [RateLimitCheck (rate_limit_request isBatch)]))"


section \<open>The query operations\<close>

definition image_text_messages :: "'s collaborators \<Rightarrow> string \<Rightarrow> string \<Rightarrow> message list" where
  "image_text_messages E imageBase64 query =
     [\<lparr> role = ''user'',
        content = [TextPart query, ImagePart (removeBase64Prefix E imageBase64)] \<rparr>]"

definition getImageTextArgs ::
  "'s collaborators \<Rightarrow> selection \<Rightarrow> string \<Rightarrow> string \<Rightarrow> call_args option" where
  "getImageTextArgs E sel imageBase64 query =
     (case aiClient sel of
        Some client \<Rightarrow>
          Some \<lparr> model = LanguageModel client (MODEL sel),
                 messages = image_text_messages E imageBase64 query \<rparr>
      | None \<Rightarrow> None)"

text \<open>
  The operation returns \<^verbatim>\<open>stream.value\<close> at once and fills the stream from a detached
  task; the model returns the stream as that task leaves it. An error in the task is
  not caught by anyone: the stream keeps what was pushed and is never finished.
\<close>

definition streamOpenAiImageQuery ::
  "'s collaborators \<Rightarrow> selection \<Rightarrow> string \<Rightarrow> string \<Rightarrow> (error + streamable) \<times> 's event list" where
  "streamOpenAiImageQuery E sel imageBase64 query =
     (case checkRateLimitAndThrow E None of
        (Inl e, evs) \<Rightarrow> (Inl e, evs)
      | (Inr _, evs) \<Rightarrow>
          let stream = createStreamableValue []
          in (case getImageTextArgs E sel imageBase64 query of
                Some args \<Rightarrow>
                  (case streamText E args of
                     (textStream, failure) \<Rightarrow>
                       (Inr (stream\<lparr> updates := map (cleanUpAiTextResponse E) textStream,
                                     finished := (failure = None) \<rparr>),
                        evs @ [StreamTextCall args]))
              | None \<Rightarrow> (Inr stream, evs)))"

text \<open>The result \<open>Inr None\<close> is the promise resolved with \<^verbatim>\<open>undefined\<close>.\<close>

definition generateOpenAiImageQuery ::
  "'s collaborators \<Rightarrow> selection \<Rightarrow> string \<Rightarrow> string \<Rightarrow> bool option \<Rightarrow>
     (error + string option) \<times> 's event list" where
  "generateOpenAiImageQuery E sel imageBase64 query isBatch =
     (case checkRateLimitAndThrow E isBatch of
        (Inl e, evs) \<Rightarrow> (Inl e, evs)
      | (Inr _, evs) \<Rightarrow>
          (case getImageTextArgs E sel imageBase64 query of
             Some args \<Rightarrow>
               (case generateText E args of
                  Inl e \<Rightarrow> (Inl e, evs @ [GenerateTextCall args])
                | Inr txt \<Rightarrow>
                    (Inr (Some (cleanUpAiTextResponse E txt)), evs @ [GenerateTextCall args]))
           | None \<Rightarrow> (Inr None, evs)))"

definition generateOpenAiImageObjectQuery ::
  "'s collaborators \<Rightarrow> selection \<Rightarrow> string \<Rightarrow> string \<Rightarrow> 's \<Rightarrow> bool option \<Rightarrow>
     (error + js_object) \<times> 's event list" where
  "generateOpenAiImageObjectQuery E sel imageBase64 query sch isBatch =
     (case checkRateLimitAndThrow E isBatch of
        (Inl e, evs) \<Rightarrow> (Inl e, evs)
      | (Inr _, evs) \<Rightarrow>
          (case aiClient sel of
             Some client \<Rightarrow>
               let args = \<lparr> model = LanguageModel client (MODEL sel),
                            messages = image_text_messages E imageBase64 query,
                            schema = sch \<rparr>
               in (case generateObject E args of
                     Inl e \<Rightarrow> (Inl e, evs @ [GenerateObjectCall args])
                   | Inr obj \<Rightarrow>
                       (Inr (Object_fromEntries
                               (map (\<lambda>(k, v). (k, cleanUpAiTextResponse E v))
                                    (Object_entries (case obj of Some ob \<Rightarrow> ob | None \<Rightarrow> [])))),
                        evs @ [GenerateObjectCall args]))
           | None \<Rightarrow> (Inl (Error ''No AI client available''), evs)))"

definition testOpenAiConnection ::
  "'s collaborators \<Rightarrow> selection \<Rightarrow> (error + string option) \<times> 's event list" where
  "testOpenAiConnection E sel =
     (case checkRateLimitAndThrow E None of
        (Inl e, evs) \<Rightarrow> (Inl e, evs)
      | (Inr _, evs) \<Rightarrow>
          (case aiClient sel of
             Some client \<Rightarrow>
               let args = \<lparr> model = LanguageModel client (MODEL sel),
                            messages = [\<lparr> role = ''user'',
                                          content = [TextPart ''Test connection''] \<rparr>] \<rparr>
               in (case generateText E args of
                     Inl e \<Rightarrow> (Inl e, evs @ [GenerateTextCall args])
                   | Inr txt \<Rightarrow> (Inr (Some txt), evs @ [GenerateTextCall args]))
           | None \<Rightarrow> (Inr None, evs)))"


section \<open>A URL class to run the model on\<close>

text \<open>
  A small URL class for http and https addresses without credentials: scheme and host, path,
  and the query and fragment kept together. The path setter escapes \<^verbatim>\<open>?\<close> and
  \<^verbatim>\<open>#\<close>, as the URL Standard does. It instantiates \<open>url_api\<close> where a concrete run of
  \<^verbatim>\<open>normalizeBaseUrl\<close> is evaluated.
\<close>

record simple_url =
  origin :: string
  path :: string
  search_hash :: string

definition ends_host :: "char \<Rightarrow> bool" where
  "ends_host c = (c = CHR ''/'' \<or> c = CHR ''?'' \<or> c = CHR ''#'')"

definition ends_path :: "char \<Rightarrow> bool" where
  "ends_path c = (c = CHR ''?'' \<or> c = CHR ''#'')"

definition simple_parse_after :: "string \<Rightarrow> string \<Rightarrow> simple_url option" where
  "simple_parse_after scheme r =
     (let host = takeWhile (\<lambda>c. \<not> ends_host c) r;
          after = dropWhile (\<lambda>c. \<not> ends_host c) r;
          p = takeWhile (\<lambda>c. \<not> ends_path c) after;
          rest = dropWhile (\<lambda>c. \<not> ends_path c) after
      in if host = [] \<or> CHR '' '' \<in> set host then None
         else Some \<lparr> origin = scheme @ host,
                     path = (if p = [] then ''/'' else p),
                     search_hash = rest \<rparr>)"

definition simple_parse :: "string \<Rightarrow> simple_url option" where
  "simple_parse s =
     (if prefix ''http://'' s then simple_parse_after ''http://'' (drop 7 s)
      else if prefix ''https://'' s then simple_parse_after ''https://'' (drop 8 s)
      else None)"

definition encode_path_char :: "char \<Rightarrow> string" where
  "encode_path_char c =
     (if c = CHR ''?'' then ''%3F'' else if c = CHR ''#'' then ''%23'' else [c])"

definition simple_set_pathname :: "simple_url \<Rightarrow> string \<Rightarrow> simple_url" where
  "simple_set_pathname x q =
     x\<lparr> path := concat (map encode_path_char (if prefix ''/'' q then q else CHR ''/'' # q)) \<rparr>"

definition simple_toString :: "simple_url \<Rightarrow> string" where
  "simple_toString x = origin x @ path x @ search_hash x"

definition simple_url_api :: "simple_url url_api" where
  "simple_url_api = \<lparr> url_parse = simple_parse, url_pathname = path,
                       url_set_pathname = simple_set_pathname, url_toString = simple_toString \<rparr>"


section \<open>Collaborators and configurations to run the model on\<close>

text \<open>
  Stand-ins for the collaborators: the prefix remover drops a JPEG data-URL prefix, the
  cleanup drops double quotes, the rate limiter lets every call through, and the provider
  answers with fixed texts that carry double quotes. The schema is a name.
\<close>

definition quoted :: "string \<Rightarrow> string" where
  "quoted s = CHR 0x22 # s @ [CHR 0x22]"

definition example_collaborators :: "string collaborators" where
  "example_collaborators =
     \<lparr> removeBase64Prefix =
         (\<lambda>s. if prefix ''data:image/jpeg;base64,'' s then drop 23 s else s),
       cleanUpAiTextResponse = filter (\<lambda>c. c \<noteq> CHR 0x22),
       rate_limit = (\<lambda>a. None),
       generateText = (\<lambda>a. Inr (quoted ''A cat'')),
       streamText = (\<lambda>a. ([CHR 0x22 # ''A '', ''cat'' @ [CHR 0x22]], None)),
       generateObject =
         (\<lambda>a. Inr (Some [(''title'', quoted ''Cat''), (''caption'', ''A cat'')])) \<rparr>"

definition no_config :: config where
  "no_config = \<lparr> OPENAI_BASE_URL = None, OPENAI_SECRET_KEY = None, DEEPSEEK_API_KEY = None,
                  DEEPSEEK_BASE_URL = None, AI_SECRET_KEY = None, AI_BASE_URL = None \<rparr>"

definition deepseek_only_config :: config where
  "deepseek_only_config =
     no_config\<lparr> DEEPSEEK_API_KEY := Some ''dk'',
                 DEEPSEEK_BASE_URL := Some ''https://api.deepseek.com'',
                 AI_SECRET_KEY := Some ''dk'',
                 AI_BASE_URL := Some ''https://api.deepseek.com'' \<rparr>"

definition openai_only_config :: config where
  "openai_only_config = no_config\<lparr> OPENAI_SECRET_KEY := Some ''ok'' \<rparr>"


definition malformed_config :: config where
  "malformed_config =
     no_config\<lparr> OPENAI_SECRET_KEY := Some ''ok'',
                 DEEPSEEK_API_KEY := Some ''dk'',
                 DEEPSEEK_BASE_URL := Some ''api.deepseek.com'' \<rparr>"

text \<open>
  DeepSeek alone, behind a proxy whose address does not mention DeepSeek; DeepSeek alone
  with nothing but its key and address; DeepSeek alone with an address that lacks the
  protocol.
\<close>

definition deepseek_proxy_config :: config where
  "deepseek_proxy_config =
     no_config\<lparr> DEEPSEEK_API_KEY := Some ''dk'',
                 DEEPSEEK_BASE_URL := Some ''https://proxy.example.com/v1'',
                 AI_SECRET_KEY := Some ''dk'',
                 AI_BASE_URL := Some ''https://proxy.example.com/v1'' \<rparr>"

definition deepseek_bare_config :: config where
  "deepseek_bare_config =
     no_config\<lparr> DEEPSEEK_API_KEY := Some ''dk'',
                 DEEPSEEK_BASE_URL := Some ''https://api.deepseek.com'' \<rparr>"

definition deepseek_malformed_config :: config where
  "deepseek_malformed_config =
     no_config\<lparr> DEEPSEEK_API_KEY := Some ''dk'',
                 DEEPSEEK_BASE_URL := Some ''api.deepseek.com'' \<rparr>"

definition limited_collaborators :: "string collaborators" where
  "limited_collaborators =
     example_collaborators\<lparr> rate_limit := (\<lambda>a. Some (Error ''Rate limit exceeded'')) \<rparr>"

definition null_object_collaborators :: "string collaborators" where
  "null_object_collaborators = example_collaborators\<lparr> generateObject := (\<lambda>a. Inr None) \<rparr>"

definition deepseek_selection :: selection where
  "deepseek_selection =
     \<lparr> IS_DEEPSEEK = JSBoolean True,
       openai = None,
       deepseek = Some (CreateDeepSeek ''dk'' (Some ''https://api.deepseek.com/v1'')),
       aiClient = Some (CreateDeepSeek ''dk'' (Some ''https://api.deepseek.com/v1'')),
       MODEL = ''deepseek-chat'' \<rparr>"


section \<open>Malformed base URLs\<close>

text \<open>
  A base URL is malformed when it is set and either lacks the http or https protocol or
  is refused by the URL parser.
\<close>

definition malformed_base_url :: "'u url_api \<Rightarrow> string \<Rightarrow> bool" where
  "malformed_base_url U u = (u \<noteq> [] \<and> (\<not> has_http_protocol u \<or> url_parse U u = None))"


section \<open>Facts about the URL class of the runs\<close>

lemma simple_after_shape:
  assumes "simple_parse_after scheme r = Some x"
  shows "\<exists>host. origin x = scheme @ host \<and> host \<noteq> [] \<and> (\<forall>c\<in>set host. \<not> ends_host c) \<and> CHR '' '' \<notin> set host"
    and "search_hash x = [] \<or> ends_path (hd (search_hash x))"
proof -
  let ?host = "takeWhile (\<lambda>c. \<not> ends_host c) r"
  from assms have h: "?host \<noteq> []" "CHR '' '' \<notin> set ?host" "origin x = scheme @ ?host"
    by (auto simp: simple_parse_after_def Let_def split: if_splits)
  have "\<forall>c\<in>set ?host. \<not> ends_host c" by (auto dest: set_takeWhileD)
  with h show "\<exists>host. origin x = scheme @ host \<and> host \<noteq> [] \<and> (\<forall>c\<in>set host. \<not> ends_host c) \<and> CHR '' '' \<notin> set host"
    by blast
  from assms have "search_hash x = dropWhile (\<lambda>c. \<not> ends_path c) (dropWhile (\<lambda>c. \<not> ends_host c) r)"
    by (auto simp: simple_parse_after_def Let_def split: if_splits)
  thus "search_hash x = [] \<or> ends_path (hd (search_hash x))"
    using hd_dropWhile[of "\<lambda>c. \<not> ends_path c"] by (metis)
qed

lemma simple_after_rebuild:
  assumes host: "host \<noteq> []" "\<forall>c\<in>set host. \<not> ends_host c" "CHR '' '' \<notin> set host"
    and p: "prefix ''/'' p" "\<forall>c\<in>set p. \<not> ends_path c"
    and rest: "rest = [] \<or> ends_path (hd rest)"
  shows "simple_parse_after scheme (host @ p @ rest) =
           Some \<lparr> origin = scheme @ host, path = p, search_hash = rest \<rparr>"
proof -
  from p(1) obtain p' where p': "p = CHR ''/'' # p'" by (auto simp: prefix_def)
  have 1: "takeWhile (\<lambda>c. \<not> ends_host c) (host @ p @ rest) = host"
    using host(2) p' by (simp add: takeWhile_append2 ends_host_def)
  have 2: "dropWhile (\<lambda>c. \<not> ends_host c) (host @ p @ rest) = p @ rest"
    using host(2) p' by (simp add: dropWhile_append2 ends_host_def)
  have 3: "takeWhile (\<lambda>c. \<not> ends_path c) (p @ rest) = p"
    using p(2) rest by (cases rest) (simp_all add: takeWhile_append2)
  have 4: "dropWhile (\<lambda>c. \<not> ends_path c) (p @ rest) = rest"
    using p(2) rest by (cases rest) (simp_all add: dropWhile_append2)
  show ?thesis using host(1,3) p' 1 2 3 4 by (simp add: simple_parse_after_def Let_def)
qed


lemma simple_parse_cases:
  assumes "simple_parse s = Some x"
  obtains r where "simple_parse_after ''http://'' r = Some x"
  | r where "simple_parse_after ''https://'' r = Some x"
  using assms by (auto simp: simple_parse_def split: if_splits)

lemma simple_parse_rebuild:
  assumes "scheme = ''http://'' \<or> scheme = ''https://''"
    and "host \<noteq> []" "\<forall>c\<in>set host. \<not> ends_host c" "CHR '' '' \<notin> set host"
    and "prefix ''/'' p" "\<forall>c\<in>set p. \<not> ends_path c"
    and "rest = [] \<or> ends_path (hd rest)"
  shows "simple_parse (scheme @ host @ p @ rest) =
           Some \<lparr> origin = scheme @ host, path = p, search_hash = rest \<rparr>"
  using assms(1)
proof
  assume "scheme = ''http://''"
  thus ?thesis using simple_after_rebuild[OF assms(2-7), of scheme]
    by (simp add: simple_parse_def)
next
  assume "scheme = ''https://''"
  thus ?thesis using simple_after_rebuild[OF assms(2-7), of scheme]
    by (simp add: simple_parse_def)
qed

lemma encoded_char_no_end: "c \<in> set (encode_path_char d) \<Longrightarrow> \<not> ends_path c"
  by (cases "d = CHR ''?''"; cases "d = CHR ''#''")
     (auto simp add: encode_path_char_def ends_path_def)

lemma encoded_path_no_end: "\<forall>c\<in>set (concat (map encode_path_char q)). \<not> ends_path c"
  using encoded_char_no_end by auto

lemma encoded_path_suffix:
  assumes "suffix ''/v1'' q"
  shows "suffix ''/v1'' (concat (map encode_path_char q))"
proof -
  from assms obtain a where "q = a @ ''/v1''" by (auto simp: suffix_def)
  hence "concat (map encode_path_char q) = concat (map encode_path_char a) @ ''/v1''"
    by (simp add: encode_path_char_def)
  thus ?thesis by (simp add: suffix_def)
qed

lemma set_pathname_shape:
  assumes "suffix ''/v1'' q"
  shows "prefix ''/'' (path (simple_set_pathname x q))"
    and "\<forall>c\<in>set (path (simple_set_pathname x q)). \<not> ends_path c"
    and "suffix ''/v1'' (path (simple_set_pathname x q))"
proof -
  let ?q = "if prefix ''/'' q then q else CHR ''/'' # q"
  have "prefix ''/'' ?q" by simp
  then obtain t where t: "?q = CHR ''/'' # t" by (auto simp: prefix_def)
  have "concat (map encode_path_char ?q) = CHR ''/'' # concat (map encode_path_char t)"
    unfolding t by (simp add: encode_path_char_def)
  thus "prefix ''/'' (path (simple_set_pathname x q))"
    by (simp add: simple_set_pathname_def)
  show "\<forall>c\<in>set (path (simple_set_pathname x q)). \<not> ends_path c"
    using encoded_path_no_end by (simp add: simple_set_pathname_def)
  have "suffix ''/v1'' ?q" using assms by (simp add: suffix_Cons)
  thus "suffix ''/v1'' (path (simple_set_pathname x q))"
    using encoded_path_suffix by (simp add: simple_set_pathname_def)
qed

lemma simple_url_api_ok: "url_api_ok simple_url_api"
  unfolding url_api_ok_def
proof (intro allI impI)
  fix s x q
  assume a: "has_http_protocol s \<and> url_parse simple_url_api s = Some x \<and> endsWith q ''/v1''"
  hence parsed: "simple_parse s = Some x" and q: "suffix ''/v1'' q"
    by (simp_all add: simple_url_api_def endsWith_def)
  obtain scheme r where scheme: "scheme = ''http://'' \<or> scheme = ''https://''"
    and after: "simple_parse_after scheme r = Some x"
    using simple_parse_cases[OF parsed] by metis
  from simple_after_shape[OF after] obtain host where
    host: "origin x = scheme @ host" "host \<noteq> []" "\<forall>c\<in>set host. \<not> ends_host c"
          "CHR '' '' \<notin> set host"
    and rest: "search_hash x = [] \<or> ends_path (hd (search_hash x))"
    by blast
  let ?x' = "simple_set_pathname x q"
  have str: "simple_toString ?x' = scheme @ host @ path ?x' @ search_hash x"
    using host(1) by (simp add: simple_toString_def simple_set_pathname_def)
  have re: "simple_parse (simple_toString ?x') =
              Some \<lparr> origin = scheme @ host, path = path ?x', search_hash = search_hash x \<rparr>"
    unfolding str
    using simple_parse_rebuild[OF scheme host(2-4) set_pathname_shape(1,2)[OF q] rest] .
  have http: "has_http_protocol (simple_toString ?x')"
    unfolding str using scheme by (auto simp: has_http_protocol_def startsWith_def)
  show "has_http_protocol (url_toString simple_url_api (url_set_pathname simple_url_api x q)) \<and>
        (\<exists>y. url_parse simple_url_api (url_toString simple_url_api (url_set_pathname simple_url_api x q)) = Some y \<and>
             endsWith (url_pathname simple_url_api y) ''/v1'')"
    using http re set_pathname_shape(3)[OF q]
    by (simp add: simple_url_api_def endsWith_def)
qed


section \<open>Facts about the query operations\<close>

lemma check_rejects:
  "rate_limit E (rate_limit_request b) = Some e \<Longrightarrow>
     checkRateLimitAndThrow E b = (Inl e, [RateLimitCheck (rate_limit_request b)])"
  by (simp add: checkRateLimitAndThrow_def)

lemma check_passes:
  "rate_limit E (rate_limit_request b) = None \<Longrightarrow>
     checkRateLimitAndThrow E b = (Inr (), [RateLimitCheck (rate_limit_request b)])"
  by (simp add: checkRateLimitAndThrow_def)

lemma stream_rejected:
  "rate_limit E (rate_limit_request None) = Some e \<Longrightarrow>
     streamOpenAiImageQuery E sel i q = (Inl e, [RateLimitCheck (rate_limit_request None)])"
  by (simp add: streamOpenAiImageQuery_def check_rejects)

lemma generate_rejected:
  "rate_limit E (rate_limit_request b) = Some e \<Longrightarrow>
     generateOpenAiImageQuery E sel i q b = (Inl e, [RateLimitCheck (rate_limit_request b)])"
  by (simp add: generateOpenAiImageQuery_def check_rejects)

lemma object_rejected:
  "rate_limit E (rate_limit_request b) = Some e \<Longrightarrow>
     generateOpenAiImageObjectQuery E sel i q sch b =
       (Inl e, [RateLimitCheck (rate_limit_request b)])"
  by (simp add: generateOpenAiImageObjectQuery_def check_rejects)

lemma test_rejected:
  "rate_limit E (rate_limit_request None) = Some e \<Longrightarrow>
     testOpenAiConnection E sel = (Inl e, [RateLimitCheck (rate_limit_request None)])"
  by (simp add: testOpenAiConnection_def check_rejects)

lemma stream_no_client:
  "rate_limit E (rate_limit_request None) = None \<Longrightarrow> aiClient sel = None \<Longrightarrow>
     streamOpenAiImageQuery E sel i q =
       (Inr (createStreamableValue []), [RateLimitCheck (rate_limit_request None)])"
  by (simp add: streamOpenAiImageQuery_def check_passes getImageTextArgs_def)

lemma generate_no_client:
  "rate_limit E (rate_limit_request b) = None \<Longrightarrow> aiClient sel = None \<Longrightarrow>
     generateOpenAiImageQuery E sel i q b = (Inr None, [RateLimitCheck (rate_limit_request b)])"
  by (simp add: generateOpenAiImageQuery_def check_passes getImageTextArgs_def)

lemma object_no_client:
  "rate_limit E (rate_limit_request b) = None \<Longrightarrow> aiClient sel = None \<Longrightarrow>
     generateOpenAiImageObjectQuery E sel i q sch b =
       (Inl (Error ''No AI client available''), [RateLimitCheck (rate_limit_request b)])"
  by (simp add: generateOpenAiImageObjectQuery_def check_passes)

lemma test_no_client:
  "rate_limit E (rate_limit_request None) = None \<Longrightarrow> aiClient sel = None \<Longrightarrow>
     testOpenAiConnection E sel = (Inr None, [RateLimitCheck (rate_limit_request None)])"
  by (simp add: testOpenAiConnection_def check_passes)

lemma stream_with_client:
  assumes "rate_limit E (rate_limit_request None) = None" and "aiClient sel = Some client"
  shows "streamOpenAiImageQuery E sel i q =
     (Inr \<lparr> initial_value = [],
            updates = map (cleanUpAiTextResponse E)
              (fst (streamText E \<lparr> model = LanguageModel client (MODEL sel),
                                   messages = image_text_messages E i q \<rparr>)),
            finished = (snd (streamText E \<lparr> model = LanguageModel client (MODEL sel),
                                   messages = image_text_messages E i q \<rparr>) = None) \<rparr>,
      [RateLimitCheck (rate_limit_request None),
       StreamTextCall \<lparr> model = LanguageModel client (MODEL sel),
                        messages = image_text_messages E i q \<rparr>])"
  using assms
  by (simp add: streamOpenAiImageQuery_def check_passes getImageTextArgs_def
        createStreamableValue_def split: prod.splits)

lemma generate_with_client:
  assumes "rate_limit E (rate_limit_request b) = None" and "aiClient sel = Some client"
  shows "generateOpenAiImageQuery E sel i q b =
     (map_sum id (\<lambda>txt. Some (cleanUpAiTextResponse E txt))
        (generateText E \<lparr> model = LanguageModel client (MODEL sel),
                           messages = image_text_messages E i q \<rparr>),
      [RateLimitCheck (rate_limit_request b),
       GenerateTextCall \<lparr> model = LanguageModel client (MODEL sel),
                          messages = image_text_messages E i q \<rparr>])"
  using assms
  by (simp add: generateOpenAiImageQuery_def check_passes getImageTextArgs_def
        split: sum.splits)

lemma object_with_client:
  assumes "rate_limit E (rate_limit_request b) = None" and "aiClient sel = Some client"
  shows "generateOpenAiImageObjectQuery E sel i q sch b =
     (map_sum id
        (\<lambda>obj. Object_fromEntries
                  (map (\<lambda>(k, v). (k, cleanUpAiTextResponse E v))
                       (Object_entries (case obj of Some ob \<Rightarrow> ob | None \<Rightarrow> []))))
        (generateObject E \<lparr> model = LanguageModel client (MODEL sel),
                             messages = image_text_messages E i q, schema = sch \<rparr>),
      [RateLimitCheck (rate_limit_request b),
       GenerateObjectCall \<lparr> model = LanguageModel client (MODEL sel),
                            messages = image_text_messages E i q, schema = sch \<rparr>])"
  using assms
  by (simp add: generateOpenAiImageObjectQuery_def check_passes Let_def split: sum.splits)

lemma test_with_client:
  assumes "rate_limit E (rate_limit_request None) = None" and "aiClient sel = Some client"
  shows "testOpenAiConnection E sel =
     (map_sum id Some
        (generateText E \<lparr> model = LanguageModel client (MODEL sel),
                           messages = [\<lparr> role = ''user'',
                                         content = [TextPart ''Test connection''] \<rparr>] \<rparr>),
      [RateLimitCheck (rate_limit_request None),
       GenerateTextCall \<lparr> model = LanguageModel client (MODEL sel),
                          messages = [\<lparr> role = ''user'',
                                        content = [TextPart ''Test connection''] \<rparr>] \<rparr>])"
  using assms
  by (simp add: testOpenAiConnection_def check_passes Let_def split: sum.splits)

lemma fromEntries_append:
  "distinct (map fst (acc @ es)) \<Longrightarrow>
     foldl (\<lambda>obj (k, v). AList.update k v obj) acc es = acc @ es"
proof (induction es arbitrary: acc)
  case Nil
  then show ?case by simp
next
  case (Cons a es)
  obtain k v where a: "a = (k, v)" by (cases a)
  have "AList.update k v acc = acc @ [(k, v)]"
    using Cons.prems a by (induction acc) auto
  then show ?case using Cons a by simp
qed

lemma fromEntries_distinct: "distinct (map fst es) \<Longrightarrow> Object_fromEntries es = es"
  using fromEntries_append[of "[]" es] by (simp add: Object_fromEntries_def)

lemma map_values_keys: "map fst (map (\<lambda>(k, v). (k, f v)) es) = map fst es"
  by (induction es) auto


section \<open>Facts about normalizeBaseUrl\<close>

lemma normalize_absent: "normalizeBaseUrl U None p = (None, [])"
  by (simp add: normalizeBaseUrl_def)

lemma normalize_empty: "normalizeBaseUrl U (Some []) p = (None, [])"
  by (simp add: normalizeBaseUrl_def)

lemma normalize_missing_protocol:
  "u \<noteq> [] \<Longrightarrow> \<not> has_http_protocol u \<Longrightarrow>
     normalizeBaseUrl U (Some u) p = (None, [warn_missing_protocol p u])"
  by (simp add: normalizeBaseUrl_def has_http_protocol_def)

lemma normalize_parse_error:
  "u \<noteq> [] \<Longrightarrow> has_http_protocol u \<Longrightarrow> url_parse U u = None \<Longrightarrow>
     normalizeBaseUrl U (Some u) p = (None, [warn_parse_error p u])"
  by (auto simp add: normalizeBaseUrl_def has_http_protocol_def)

lemma normalize_unchanged:
  "u \<noteq> [] \<Longrightarrow> has_http_protocol u \<Longrightarrow> url_parse U u = Some x \<Longrightarrow>
   p \<noteq> Some Deepseek \<or> endsWith (url_pathname U x) ''/v1'' \<Longrightarrow>
     normalizeBaseUrl U (Some u) p = (Some u, [])"
  by (auto simp add: normalizeBaseUrl_def has_http_protocol_def)

lemma normalize_rewritten:
  "u \<noteq> [] \<Longrightarrow> has_http_protocol u \<Longrightarrow> url_parse U u = Some x \<Longrightarrow>
   \<not> endsWith (url_pathname U x) ''/v1'' \<Longrightarrow>
     normalizeBaseUrl U (Some u) (Some Deepseek) =
       (Some (url_toString U (url_set_pathname U x
                (if endsWith (url_pathname U x) ''/''
                 then url_pathname U x @ ''v1'' else url_pathname U x @ ''/v1''))), [])"
  by (auto simp add: normalizeBaseUrl_def has_http_protocol_def Let_def)

lemma appended_ends_v1:
  "endsWith (if endsWith pa ''/'' then pa @ ''v1'' else pa @ ''/v1'') ''/v1''"
  by (auto simp: endsWith_def suffix_def)

lemma has_http_nonempty: "has_http_protocol u \<Longrightarrow> u \<noteq> []"
  by (auto simp: has_http_protocol_def startsWith_def)

lemma normalize_malformed:
  assumes "malformed_base_url U u"
  shows "normalizeBaseUrl U (Some u) p =
           (None, [if has_http_protocol u then warn_parse_error p u
                   else warn_missing_protocol p u])"
  using assms normalize_missing_protocol[of u U p] normalize_parse_error[of u U p]
  by (auto simp: malformed_base_url_def)


section \<open>Facts about the provider selection\<close>

lemma load_module_cong:
  assumes "normalizedDeepseekBaseUrl U c = normalizedDeepseekBaseUrl U c'"
    and "normalizedOpenaiBaseUrl U c = normalizedOpenaiBaseUrl U c'"
    and "DEEPSEEK_API_KEY c = DEEPSEEK_API_KEY c'"
    and "OPENAI_SECRET_KEY c = OPENAI_SECRET_KEY c'"
  shows "load_module U c = load_module U c'"
  by (simp only: load_module_def safeOpenaiBaseUrl_def assms)

lemma malformed_deepseek_url_absent:
  assumes "malformed_base_url U u"
  shows "load_module U (c\<lparr> DEEPSEEK_BASE_URL := Some u \<rparr>) =
         load_module U (c\<lparr> DEEPSEEK_BASE_URL := None \<rparr>)"
  by (rule load_module_cong)
     (simp_all add: normalizedDeepseekBaseUrl_def normalizedOpenaiBaseUrl_def
        normalize_malformed[OF assms] normalize_absent)

lemma malformed_openai_url_absent:
  assumes "malformed_base_url U u"
  shows "load_module U (c\<lparr> OPENAI_BASE_URL := Some u \<rparr>) =
         load_module U (c\<lparr> OPENAI_BASE_URL := None \<rparr>)"
  by (rule load_module_cong)
     (simp_all add: normalizedDeepseekBaseUrl_def normalizedOpenaiBaseUrl_def
        normalize_malformed[OF assms] normalize_absent)

lemma deepseek_disabled_without_url:
  "normalizedDeepseekBaseUrl U c = None \<Longrightarrow> deepseek (load_module U c) = None \<and> \<not> js_truthy (IS_DEEPSEEK (load_module U c))"
  by (simp add: load_module_def truthy_def js_and_def Let_def split: option.splits)

lemma openai_default_url:
  "normalizedOpenaiBaseUrl U c = None \<Longrightarrow>
     openai (load_module U c) =
       (case OPENAI_SECRET_KEY c of None \<Rightarrow> None
        | Some key \<Rightarrow> if key \<noteq> [] then Some (CreateOpenAI key None) else None)"
  by (simp add: load_module_def safeOpenaiBaseUrl_def spread_baseURL_def truthy_def Let_def
      split: option.splits)

lemma aiClient_deepseek:
  assumes "DEEPSEEK_API_KEY c = Some dkey" "dkey \<noteq> []"
    and "normalizedDeepseekBaseUrl U c = Some durl" "durl \<noteq> []"
  shows "load_module U c =
     \<lparr> IS_DEEPSEEK = JSBoolean True,
       openai = (case OPENAI_SECRET_KEY c of None \<Rightarrow> None
                 | Some key \<Rightarrow> if key \<noteq> []
                     then Some (CreateOpenAI key (spread_baseURL (safeOpenaiBaseUrl U c)))
                     else None),
       deepseek = Some (CreateDeepSeek dkey (Some durl)),
       aiClient = Some (CreateDeepSeek dkey (Some durl)),
       MODEL = DEEPSEEK_MODEL \<rparr>"
  using assms by (simp add: load_module_def js_and_def truthy_def Let_def)

lemma aiClient_not_deepseek:
  assumes "\<not> (truthy (DEEPSEEK_API_KEY c) \<and> truthy (normalizedDeepseekBaseUrl U c))"
  shows "aiClient (load_module U c) = openai (load_module U c)"
    and "MODEL (load_module U c) = OPENAI_MODEL"
    and "deepseek (load_module U c) = None"
    and "\<not> js_truthy (IS_DEEPSEEK (load_module U c))"
  using assms by (auto simp add: load_module_def js_and_def truthy_def Let_def split: option.splits)

lemma openai_client:
  "openai (load_module U c) =
     (case OPENAI_SECRET_KEY c of None \<Rightarrow> None
      | Some key \<Rightarrow> if key \<noteq> []
          then Some (CreateOpenAI key (spread_baseURL (safeOpenaiBaseUrl U c))) else None)"
  by (simp add: load_module_def Let_def)


section \<open>Facts about the configurations of the runs\<close>

lemma deepseek_only_normalized:
  "normalizedDeepseekBaseUrl simple_url_api deepseek_only_config =
     Some ''https://api.deepseek.com/v1''"
  by (simp add: deepseek_only_config_def no_config_def
      normalizedDeepseekBaseUrl_def normalizeBaseUrl_def simple_url_api_def simple_parse_def
      simple_parse_after_def simple_set_pathname_def simple_toString_def encode_path_char_def
      ends_host_def ends_path_def startsWith_def endsWith_def Let_def suffix_to_prefix)

lemma openai_ts_selection:
  "load_module_openai_ts c =
     \<lparr> IS_DEEPSEEK = js_and (js_of_string (DEEPSEEK_API_KEY c))
                        (js_or (includes_opt (DEEPSEEK_BASE_URL c) ''deepseek'')
                               (includes_opt (OPENAI_BASE_URL c) ''deepseek'')),
       openai = (case OPENAI_SECRET_KEY c of None \<Rightarrow> None
                 | Some key \<Rightarrow> if key \<noteq> []
                     then Some (CreateOpenAI key (spread_baseURL (OPENAI_BASE_URL c)))
                     else None),
       deepseek = (case AI_SECRET_KEY c of None \<Rightarrow> None
                   | Some key \<Rightarrow> if key \<noteq> []
                       then Some (CreateDeepSeek key (spread_baseURL (AI_BASE_URL c)))
                       else None),
       aiClient =
         (if js_truthy (js_and (js_of_string (DEEPSEEK_API_KEY c))
                        (js_or (includes_opt (DEEPSEEK_BASE_URL c) ''deepseek'')
                               (includes_opt (OPENAI_BASE_URL c) ''deepseek'')))
          then (case AI_SECRET_KEY c of None \<Rightarrow> None
                   | Some key \<Rightarrow> if key \<noteq> []
                       then Some (CreateDeepSeek key (spread_baseURL (AI_BASE_URL c)))
                       else None)
          else (case OPENAI_SECRET_KEY c of None \<Rightarrow> None
                 | Some key \<Rightarrow> if key \<noteq> []
                     then Some (CreateOpenAI key (spread_baseURL (OPENAI_BASE_URL c)))
                     else None)),
       MODEL =
         (if js_truthy (js_and (js_of_string (DEEPSEEK_API_KEY c))
                        (js_or (includes_opt (DEEPSEEK_BASE_URL c) ''deepseek'')
                               (includes_opt (OPENAI_BASE_URL c) ''deepseek'')))
          then DEEPSEEK_MODEL else OPENAI_MODEL) \<rparr>"
  by (simp add: load_module_openai_ts_def Let_def)

text \<open>
  \<^verbatim>\<open>src/platforms/openai.ts\<close> hands a base URL to the OpenAI client as it is
  configured, whatever its form.
\<close>

lemma openai_ts_base_url_unvalidated:
  assumes "OPENAI_SECRET_KEY c = Some key" "key \<noteq> []"
    and "OPENAI_BASE_URL c = Some u" "u \<noteq> []"
  shows "openai (load_module_openai_ts c) = Some (CreateOpenAI key (Some u))"
  using assms by (simp add: openai_ts_selection spread_baseURL_def truthy_def)

lemma openai_ts_flag_without_key:
  "\<not> truthy (DEEPSEEK_API_KEY c) \<Longrightarrow> \<not> js_truthy (js_and (js_of_string (DEEPSEEK_API_KEY c)) b)"
  by (cases "DEEPSEEK_API_KEY c") (simp_all add: js_and_def truthy_def)

lemma openai_ts_flag_with_url:
  "DEEPSEEK_API_KEY c = Some dkey \<Longrightarrow> dkey \<noteq> [] \<Longrightarrow> DEEPSEEK_BASE_URL c = Some durl \<Longrightarrow>
   includes_str durl ''deepseek'' \<Longrightarrow>
     js_truthy (js_and (js_of_string (DEEPSEEK_API_KEY c))
                  (js_or (includes_opt (DEEPSEEK_BASE_URL c) ''deepseek'') b))"
  by (simp add: js_and_def js_or_def includes_opt_def)

lemma openai_ts_deepseek:
  assumes "DEEPSEEK_API_KEY c = Some dkey" "dkey \<noteq> []" "DEEPSEEK_BASE_URL c = Some durl"
    "includes_str durl ''deepseek''" "AI_SECRET_KEY c = Some akey" "akey \<noteq> []"
  shows "aiClient (load_module_openai_ts c) =
           Some (CreateDeepSeek akey (spread_baseURL (AI_BASE_URL c)))"
  using openai_ts_flag_with_url[OF assms(1-4)] assms(5,6)
  by (simp add: openai_ts_selection)

lemma openai_ts_openai:
  assumes "\<not> truthy (DEEPSEEK_API_KEY c)"
  shows "aiClient (load_module_openai_ts c) =
           (case OPENAI_SECRET_KEY c of None \<Rightarrow> None
            | Some key \<Rightarrow> if key \<noteq> []
                then Some (CreateOpenAI key (spread_baseURL (OPENAI_BASE_URL c))) else None)"
  using openai_ts_flag_without_key[OF assms] by (simp add: openai_ts_selection)

lemma beta_url_normalized:
  "normalizeBaseUrl simple_url_api (Some ''https://api.deepseek.com/beta/?x=1'') (Some Deepseek)
     = (Some ''https://api.deepseek.com/beta/v1?x=1'', [])"
  by (simp add: normalizeBaseUrl_def simple_url_api_def simple_parse_def
      simple_parse_after_def simple_set_pathname_def simple_toString_def encode_path_char_def
      ends_host_def ends_path_def startsWith_def endsWith_def Let_def suffix_to_prefix)

lemma beta_url_parsed:
  "url_parse simple_url_api ''https://api.deepseek.com/beta/?x=1'' =
     Some \<lparr> origin = ''https://api.deepseek.com'', path = ''/beta/'', search_hash = ''?x=1'' \<rparr>"
  by (simp add: simple_url_api_def simple_parse_def simple_parse_after_def
      ends_host_def ends_path_def Let_def)


section \<open>The claims\<close>

text \<open>
  C1. Provider selection, as the two versions of the module have it.
  In the module with URL validation: when the secondary provider (DeepSeek) is fully
  configured, that is, its API key is set and its base URL normalises to a URL, the active
  client is the DeepSeek client made from them (whether or not the primary is configured
  too); when the primary provider (OpenAI) has its key and DeepSeek is not fully
  configured, the active client is the OpenAI client; when neither holds, the active client
  is undefined.
  In \<^verbatim>\<open>src/platforms/openai.ts\<close>: the DeepSeek client is active when the DeepSeek
  key is set, the DeepSeek base URL contains the text \<^verbatim>\<open>deepseek\<close>, and
  \<^verbatim>\<open>AI_SECRET_KEY\<close>, from which that client is made, is set; the OpenAI client is
  active when its key is set and the DeepSeek key is not; no client is active when neither
  key is set.
  With no active client, a call that the rate limiter lets through returns nothing (the
  text and the streaming operation) or throws the no-client error (the structured
  operation).
\<close>

theorem provider_selection:
  "(DEEPSEEK_API_KEY c = Some dkey \<and> dkey \<noteq> [] \<and>
    normalizedDeepseekBaseUrl U c = Some durl \<and> durl \<noteq> [] \<longrightarrow>
      aiClient (load_module U c) = Some (CreateDeepSeek dkey (Some durl)))
   \<and> (OPENAI_SECRET_KEY c = Some okey \<and> okey \<noteq> [] \<and>
      \<not> (truthy (DEEPSEEK_API_KEY c) \<and> truthy (normalizedDeepseekBaseUrl U c)) \<longrightarrow>
      aiClient (load_module U c) =
        Some (CreateOpenAI okey (spread_baseURL (safeOpenaiBaseUrl U c))))
   \<and> (\<not> truthy (OPENAI_SECRET_KEY c) \<and>
      \<not> (truthy (DEEPSEEK_API_KEY c) \<and> truthy (normalizedDeepseekBaseUrl U c)) \<longrightarrow>
      aiClient (load_module U c) = None)
   \<and> (DEEPSEEK_API_KEY c = Some dkey \<and> dkey \<noteq> [] \<and>
      DEEPSEEK_BASE_URL c = Some durl \<and> includes_str durl ''deepseek'' \<and>
      AI_SECRET_KEY c = Some akey \<and> akey \<noteq> [] \<longrightarrow>
      aiClient (load_module_openai_ts c) =
        Some (CreateDeepSeek akey (spread_baseURL (AI_BASE_URL c))))
   \<and> (OPENAI_SECRET_KEY c = Some okey \<and> okey \<noteq> [] \<and> \<not> truthy (DEEPSEEK_API_KEY c) \<longrightarrow>
      aiClient (load_module_openai_ts c) =
        Some (CreateOpenAI okey (spread_baseURL (OPENAI_BASE_URL c))))
   \<and> (\<not> truthy (OPENAI_SECRET_KEY c) \<and> \<not> truthy (DEEPSEEK_API_KEY c) \<longrightarrow>
      aiClient (load_module_openai_ts c) = None)
   \<and> (aiClient sel = None \<and> rate_limit E (rate_limit_request None) = None \<and>
      rate_limit E (rate_limit_request isBatch) = None \<longrightarrow>
      fst (streamOpenAiImageQuery E sel img query) = Inr (createStreamableValue []) \<and>
      fst (generateOpenAiImageQuery E sel img query isBatch) = Inr None \<and>
      fst (generateOpenAiImageObjectQuery E sel img query sch isBatch) =
        Inl (Error ''No AI client available''))"
proof -
  have a: "DEEPSEEK_API_KEY c = Some dkey \<and> dkey \<noteq> [] \<and>
      normalizedDeepseekBaseUrl U c = Some durl \<and> durl \<noteq> [] \<longrightarrow>
      aiClient (load_module U c) = Some (CreateDeepSeek dkey (Some durl))"
    by (simp add: aiClient_deepseek)
  have b: "OPENAI_SECRET_KEY c = Some okey \<and> okey \<noteq> [] \<and>
      \<not> (truthy (DEEPSEEK_API_KEY c) \<and> truthy (normalizedDeepseekBaseUrl U c)) \<longrightarrow>
      aiClient (load_module U c) =
        Some (CreateOpenAI okey (spread_baseURL (safeOpenaiBaseUrl U c)))"
    using aiClient_not_deepseek(1)[of c U] by (simp add: openai_client)
  have n: "\<not> truthy (OPENAI_SECRET_KEY c) \<and>
      \<not> (truthy (DEEPSEEK_API_KEY c) \<and> truthy (normalizedDeepseekBaseUrl U c)) \<longrightarrow>
      aiClient (load_module U c) = None"
    using aiClient_not_deepseek(1)[of c U]
    by (auto simp add: openai_client truthy_def split: option.splits)
  have a': "DEEPSEEK_API_KEY c = Some dkey \<and> dkey \<noteq> [] \<and>
      DEEPSEEK_BASE_URL c = Some durl \<and> includes_str durl ''deepseek'' \<and>
      AI_SECRET_KEY c = Some akey \<and> akey \<noteq> [] \<longrightarrow>
      aiClient (load_module_openai_ts c) =
        Some (CreateDeepSeek akey (spread_baseURL (AI_BASE_URL c)))"
    using openai_ts_deepseek[of c dkey durl akey] by blast
  have b': "OPENAI_SECRET_KEY c = Some okey \<and> okey \<noteq> [] \<and> \<not> truthy (DEEPSEEK_API_KEY c) \<longrightarrow>
      aiClient (load_module_openai_ts c) =
        Some (CreateOpenAI okey (spread_baseURL (OPENAI_BASE_URL c)))"
    using openai_ts_openai[of c] by auto
  have n': "\<not> truthy (OPENAI_SECRET_KEY c) \<and> \<not> truthy (DEEPSEEK_API_KEY c) \<longrightarrow>
      aiClient (load_module_openai_ts c) = None"
    using openai_ts_openai[of c] by (auto simp: truthy_def split: option.splits)
  have ops: "aiClient sel = None \<and> rate_limit E (rate_limit_request None) = None \<and>
      rate_limit E (rate_limit_request isBatch) = None \<longrightarrow>
      fst (streamOpenAiImageQuery E sel img query) = Inr (createStreamableValue []) \<and>
      fst (generateOpenAiImageQuery E sel img query isBatch) = Inr None \<and>
      fst (generateOpenAiImageObjectQuery E sel img query sch isBatch) =
        Inl (Error ''No AI client available'')"
    by (simp add: stream_no_client generate_no_client object_no_client)
  from a b n a' b' n' ops show ?thesis by blast
qed

lemma deepseek_url_mentions_deepseek: "includes_str ''https://api.deepseek.com'' ''deepseek''"
  unfolding includes_str_def by code_simp

lemma deepseek_only_fields:
  "DEEPSEEK_API_KEY deepseek_only_config = Some ''dk''"
  "DEEPSEEK_BASE_URL deepseek_only_config = Some ''https://api.deepseek.com''"
  "AI_SECRET_KEY deepseek_only_config = Some ''dk''"
  "AI_BASE_URL deepseek_only_config = Some ''https://api.deepseek.com''"
  "OPENAI_SECRET_KEY deepseek_only_config = None"
  by (simp_all add: deepseek_only_config_def no_config_def)

lemma openai_only_fields:
  "OPENAI_SECRET_KEY openai_only_config = Some ''ok''"
  "OPENAI_BASE_URL openai_only_config = None"
  "DEEPSEEK_API_KEY openai_only_config = None"
  by (simp_all add: openai_only_config_def no_config_def)

lemma no_config_fields:
  "OPENAI_SECRET_KEY no_config = None"
  "DEEPSEEK_API_KEY no_config = None"
  by (simp_all add: no_config_def)

lemma openai_only_safe_url: "safeOpenaiBaseUrl U openai_only_config = None"
  by (simp add: safeOpenaiBaseUrl_def normalizedOpenaiBaseUrl_def openai_only_fields
      normalize_absent)

theorem provider_selection_witness:
  "aiClient (load_module simple_url_api deepseek_only_config) =
     Some (CreateDeepSeek ''dk'' (Some ''https://api.deepseek.com/v1''))
   \<and> aiClient (load_module simple_url_api openai_only_config) = Some (CreateOpenAI ''ok'' None)
   \<and> aiClient (load_module simple_url_api no_config) = None
   \<and> aiClient (load_module_openai_ts deepseek_only_config) =
       Some (CreateDeepSeek ''dk'' (Some ''https://api.deepseek.com''))
   \<and> aiClient (load_module_openai_ts openai_only_config) = Some (CreateOpenAI ''ok'' None)
   \<and> aiClient (load_module_openai_ts no_config) = None
   \<and> fst (streamOpenAiImageQuery example_collaborators (load_module simple_url_api no_config)
            ''data:image/jpeg;base64,QUJD'' ''Describe'') =
       Inr \<lparr> initial_value = [], updates = [], finished = False \<rparr>
   \<and> fst (generateOpenAiImageQuery example_collaborators (load_module simple_url_api no_config)
            ''data:image/jpeg;base64,QUJD'' ''Describe'' None) = Inr None
   \<and> fst (generateOpenAiImageObjectQuery example_collaborators
            (load_module simple_url_api no_config)
            ''data:image/jpeg;base64,QUJD'' ''Describe'' ''caption-schema'' None) =
       Inl (Error ''No AI client available'')"
proof -
  have d: "aiClient (load_module simple_url_api deepseek_only_config) =
             Some (CreateDeepSeek ''dk'' (Some ''https://api.deepseek.com/v1''))"
    using provider_selection[where c = deepseek_only_config and U = simple_url_api
        and dkey = "''dk''" and durl = "''https://api.deepseek.com/v1''", THEN conjunct1]
    by (simp add: deepseek_only_fields deepseek_only_normalized)
  have o: "aiClient (load_module simple_url_api openai_only_config) =
             Some (CreateOpenAI ''ok'' None)"
    using provider_selection[where c = openai_only_config and U = simple_url_api
        and okey = "''ok''", THEN conjunct2, THEN conjunct1]
    by (simp add: openai_only_fields openai_only_safe_url spread_baseURL_def truthy_def)
  have n: "aiClient (load_module simple_url_api no_config) = None"
    using provider_selection[where c = no_config and U = simple_url_api,
        THEN conjunct2, THEN conjunct2, THEN conjunct1]
    by (simp add: no_config_fields truthy_def)
  have d': "aiClient (load_module_openai_ts deepseek_only_config) =
             Some (CreateDeepSeek ''dk'' (Some ''https://api.deepseek.com''))"
    using provider_selection[where c = deepseek_only_config
        and dkey = "''dk''" and durl = "''https://api.deepseek.com''" and akey = "''dk''",
        THEN conjunct2, THEN conjunct2, THEN conjunct2, THEN conjunct1]
    by (simp add: deepseek_only_fields deepseek_url_mentions_deepseek spread_baseURL_def
        truthy_def)
  have o': "aiClient (load_module_openai_ts openai_only_config) =
             Some (CreateOpenAI ''ok'' None)"
    using provider_selection[where c = openai_only_config and okey = "''ok''",
        THEN conjunct2, THEN conjunct2, THEN conjunct2, THEN conjunct2, THEN conjunct1]
    by (simp add: openai_only_fields spread_baseURL_def truthy_def)
  have n': "aiClient (load_module_openai_ts no_config) = None"
    using provider_selection[where c = no_config,
        THEN conjunct2, THEN conjunct2, THEN conjunct2, THEN conjunct2, THEN conjunct2,
        THEN conjunct1]
    by (simp add: no_config_fields truthy_def)
  have r: "rate_limit example_collaborators (rate_limit_request None) = None"
    by (simp add: example_collaborators_def)
  have ops: "fst (streamOpenAiImageQuery example_collaborators
                    (load_module simple_url_api no_config)
                    ''data:image/jpeg;base64,QUJD'' ''Describe'') =
               Inr \<lparr> initial_value = [], updates = [], finished = False \<rparr>
           \<and> fst (generateOpenAiImageQuery example_collaborators
                    (load_module simple_url_api no_config)
                    ''data:image/jpeg;base64,QUJD'' ''Describe'' None) = Inr None
           \<and> fst (generateOpenAiImageObjectQuery example_collaborators
                    (load_module simple_url_api no_config)
                    ''data:image/jpeg;base64,QUJD'' ''Describe'' ''caption-schema'' None) =
               Inl (Error ''No AI client available'')"
    using provider_selection[where sel = "load_module simple_url_api no_config"
        and E = example_collaborators and isBatch = None
        and img = "''data:image/jpeg;base64,QUJD''" and query = "''Describe''"
        and sch = "''caption-schema''",
        THEN conjunct2, THEN conjunct2, THEN conjunct2, THEN conjunct2, THEN conjunct2,
        THEN conjunct2] n r
    by (simp add: createStreamableValue_def)
  from d d' o o' n n' ops show ?thesis by blast
qed

lemma proxy_url_normalized:
  "normalizedDeepseekBaseUrl simple_url_api deepseek_proxy_config =
     Some ''https://proxy.example.com/v1''"
  by (simp add: deepseek_proxy_config_def no_config_def
      normalizedDeepseekBaseUrl_def normalizeBaseUrl_def simple_url_api_def simple_parse_def
      simple_parse_after_def ends_host_def ends_path_def startsWith_def endsWith_def
      Let_def suffix_to_prefix)

lemma bare_url_normalized:
  "normalizedDeepseekBaseUrl simple_url_api deepseek_bare_config =
     Some ''https://api.deepseek.com/v1''"
  by (simp add: deepseek_bare_config_def no_config_def
      normalizedDeepseekBaseUrl_def normalizeBaseUrl_def simple_url_api_def simple_parse_def
      simple_parse_after_def simple_set_pathname_def simple_toString_def encode_path_char_def
      ends_host_def ends_path_def startsWith_def endsWith_def Let_def suffix_to_prefix)

lemma proxy_url_no_mention: "\<not> includes_str ''https://proxy.example.com/v1'' ''deepseek''"
  unfolding includes_str_def by code_simp

lemma deepseek_proxy_fields:
  "DEEPSEEK_API_KEY deepseek_proxy_config = Some ''dk''"
  "DEEPSEEK_BASE_URL deepseek_proxy_config = Some ''https://proxy.example.com/v1''"
  "OPENAI_SECRET_KEY deepseek_proxy_config = None"
  "OPENAI_BASE_URL deepseek_proxy_config = None"
  "AI_SECRET_KEY deepseek_proxy_config = Some ''dk''"
  by (simp_all add: deepseek_proxy_config_def no_config_def)

lemma deepseek_bare_fields:
  "DEEPSEEK_API_KEY deepseek_bare_config = Some ''dk''"
  "DEEPSEEK_BASE_URL deepseek_bare_config = Some ''https://api.deepseek.com''"
  "OPENAI_SECRET_KEY deepseek_bare_config = None"
  "OPENAI_BASE_URL deepseek_bare_config = None"
  "AI_SECRET_KEY deepseek_bare_config = None"
  by (simp_all add: deepseek_bare_config_def no_config_def)

text \<open>
  The selection of \<^verbatim>\<open>src/platforms/openai.ts\<close> does not follow the DeepSeek
  configuration alone. With DeepSeek the only provider configured, key and well-formed base
  URL, the module with URL validation makes the DeepSeek client active, and
  \<^verbatim>\<open>openai.ts\<close> has no active client: behind a proxy address the flag
  \<^verbatim>\<open>IS_DEEPSEEK\<close> is not set, and with the DeepSeek address but no
  \<^verbatim>\<open>AI_SECRET_KEY\<close> the flag is set and the client it selects was never made.
\<close>

theorem provider_selection_counterexample:
  "DEEPSEEK_API_KEY deepseek_proxy_config = Some ''dk''
   \<and> DEEPSEEK_BASE_URL deepseek_proxy_config = Some ''https://proxy.example.com/v1''
   \<and> OPENAI_SECRET_KEY deepseek_proxy_config = None
   \<and> aiClient (load_module simple_url_api deepseek_proxy_config) =
       Some (CreateDeepSeek ''dk'' (Some ''https://proxy.example.com/v1''))
   \<and> aiClient (load_module_openai_ts deepseek_proxy_config) = None
   \<and> DEEPSEEK_API_KEY deepseek_bare_config = Some ''dk''
   \<and> DEEPSEEK_BASE_URL deepseek_bare_config = Some ''https://api.deepseek.com''
   \<and> OPENAI_SECRET_KEY deepseek_bare_config = None
   \<and> aiClient (load_module simple_url_api deepseek_bare_config) =
       Some (CreateDeepSeek ''dk'' (Some ''https://api.deepseek.com/v1''))
   \<and> IS_DEEPSEEK (load_module_openai_ts deepseek_bare_config) = JSBoolean True
   \<and> aiClient (load_module_openai_ts deepseek_bare_config) = None"
proof -
  have p1: "aiClient (load_module simple_url_api deepseek_proxy_config) =
       Some (CreateDeepSeek ''dk'' (Some ''https://proxy.example.com/v1''))"
    by (simp add: aiClient_deepseek[OF deepseek_proxy_fields(1) _ proxy_url_normalized])
  have p2: "aiClient (load_module_openai_ts deepseek_proxy_config) = None"
    by (simp add: openai_ts_selection deepseek_proxy_fields proxy_url_no_mention
        js_and_def js_or_def includes_opt_def)
  have b1: "aiClient (load_module simple_url_api deepseek_bare_config) =
       Some (CreateDeepSeek ''dk'' (Some ''https://api.deepseek.com/v1''))"
    by (simp add: aiClient_deepseek[OF deepseek_bare_fields(1) _ bare_url_normalized])
  have b2: "IS_DEEPSEEK (load_module_openai_ts deepseek_bare_config) = JSBoolean True"
    and b3: "aiClient (load_module_openai_ts deepseek_bare_config) = None"
    by (simp_all add: openai_ts_selection deepseek_bare_fields deepseek_url_mentions_deepseek
        js_and_def js_or_def includes_opt_def)
  from p1 p2 b1 b2 b3 deepseek_proxy_fields(1-3) deepseek_bare_fields(1-3)
  show ?thesis by blast
qed

text \<open>
  C2. Failure semantics when no provider is configured (\<^verbatim>\<open>aiClient\<close> is undefined), for
  a call that the rate limiter lets through: \<^verbatim>\<open>generateOpenAiImageQuery\<close> resolves with
  \<^verbatim>\<open>undefined\<close> and \<^verbatim>\<open>streamOpenAiImageQuery\<close> returns a stream that holds the initial
  empty string and receives nothing, neither of them throwing and neither calling the
  provider, while \<^verbatim>\<open>generateOpenAiImageObjectQuery\<close> throws an error with the message
  \<^verbatim>\<open>No AI client available\<close>.
\<close>

theorem no_client_failure_semantics:
  assumes "aiClient sel = None"
    and "rate_limit E (rate_limit_request None) = None"
    and "rate_limit E (rate_limit_request isBatch) = None"
  shows "generateOpenAiImageQuery E sel img query isBatch =
           (Inr None, [RateLimitCheck (rate_limit_request isBatch)])
       \<and> streamOpenAiImageQuery E sel img query =
           (Inr \<lparr> initial_value = [], updates = [], finished = False \<rparr>,
            [RateLimitCheck (rate_limit_request None)])
       \<and> generateOpenAiImageObjectQuery E sel img query sch isBatch =
           (Inl (Error ''No AI client available''),
            [RateLimitCheck (rate_limit_request isBatch)])"
  using assms
  by (simp add: generate_no_client stream_no_client object_no_client createStreamableValue_def)

theorem no_client_failure_semantics_witness:
  "aiClient (load_module simple_url_api no_config) = None
   \<and> rate_limit example_collaborators (rate_limit_request None) = None
   \<and> rate_limit example_collaborators (rate_limit_request (Some True)) = None
   \<and> fst (generateOpenAiImageQuery example_collaborators (load_module simple_url_api no_config)
            ''data:image/jpeg;base64,QUJD'' ''What is this?'' (Some True)) = Inr None
   \<and> fst (streamOpenAiImageQuery example_collaborators (load_module simple_url_api no_config)
            ''data:image/jpeg;base64,QUJD'' ''What is this?'') =
           Inr \<lparr> initial_value = [], updates = [], finished = False \<rparr>
   \<and> fst (generateOpenAiImageObjectQuery example_collaborators
            (load_module simple_url_api no_config)
            ''data:image/jpeg;base64,QUJD'' ''What is this?'' ''caption-schema'' (Some True)) =
           Inl (Error ''No AI client available'')"
proof -
  have c: "aiClient (load_module simple_url_api no_config) = None"
    using aiClient_not_deepseek(1)[of no_config simple_url_api]
    by (simp add: openai_client no_config_fields truthy_def)
  have r1: "rate_limit example_collaborators (rate_limit_request None) = None"
    and r2: "rate_limit example_collaborators (rate_limit_request (Some True)) = None"
    by (simp_all add: example_collaborators_def)
  show ?thesis
    using no_client_failure_semantics[OF c r1 r2] c r1 r2 by simp
qed

text \<open>
  C3. Every call of one of the three query operations starts with the rate-limit check:
  it is the first entry of the call's trace. When the rate limiter rejects the call with
  an error, the operation fails with that error and its trace holds no provider request
  (no \<^verbatim>\<open>generateText\<close>, \<^verbatim>\<open>streamText\<close> or \<^verbatim>\<open>generateObject\<close>).
\<close>

theorem rate_limit_checked_first:
  "(\<exists>rest. snd (streamOpenAiImageQuery E sel img query) =
             RateLimitCheck (rate_limit_request None) # rest)
   \<and> (\<exists>rest. snd (generateOpenAiImageQuery E sel img query isBatch) =
             RateLimitCheck (rate_limit_request isBatch) # rest)
   \<and> (\<exists>rest. snd (generateOpenAiImageObjectQuery E sel img query sch isBatch) =
             RateLimitCheck (rate_limit_request isBatch) # rest)
   \<and> (rate_limit E (rate_limit_request None) = Some e \<longrightarrow>
        fst (streamOpenAiImageQuery E sel img query) = Inl e \<and>
        filter is_provider_request (snd (streamOpenAiImageQuery E sel img query)) = [])
   \<and> (rate_limit E (rate_limit_request isBatch) = Some e \<longrightarrow>
        fst (generateOpenAiImageQuery E sel img query isBatch) = Inl e \<and>
        filter is_provider_request
          (snd (generateOpenAiImageQuery E sel img query isBatch)) = [] \<and>
        fst (generateOpenAiImageObjectQuery E sel img query sch isBatch) = Inl e \<and>
        filter is_provider_request
          (snd (generateOpenAiImageObjectQuery E sel img query sch isBatch)) = [])"
proof -
  have first: "\<exists>rest. snd (streamOpenAiImageQuery E sel img query) =
             RateLimitCheck (rate_limit_request None) # rest"
    by (cases "rate_limit E (rate_limit_request None)"; cases "aiClient sel")
       (simp_all add: stream_rejected stream_no_client stream_with_client)
  have second: "\<exists>rest. snd (generateOpenAiImageQuery E sel img query isBatch) =
             RateLimitCheck (rate_limit_request isBatch) # rest"
    by (cases "rate_limit E (rate_limit_request isBatch)"; cases "aiClient sel")
       (simp_all add: generate_rejected generate_no_client generate_with_client)
  have third: "\<exists>rest. snd (generateOpenAiImageObjectQuery E sel img query sch isBatch) =
             RateLimitCheck (rate_limit_request isBatch) # rest"
    by (cases "rate_limit E (rate_limit_request isBatch)"; cases "aiClient sel")
       (simp_all add: object_rejected object_no_client object_with_client)
  show ?thesis
    using first second third
    by (simp add: stream_rejected generate_rejected object_rejected)
qed

theorem rate_limit_checked_first_witness:
  "rate_limit limited_collaborators (rate_limit_request None) =
     Some (Error ''Rate limit exceeded'')
   \<and> rate_limit limited_collaborators (rate_limit_request (Some True)) =
     Some (Error ''Rate limit exceeded'')
   \<and> aiClient deepseek_selection \<noteq> None
   \<and> fst (streamOpenAiImageQuery limited_collaborators deepseek_selection
            ''data:image/jpeg;base64,QUJD'' ''Describe'') = Inl (Error ''Rate limit exceeded'')
   \<and> filter is_provider_request
        (snd (streamOpenAiImageQuery limited_collaborators deepseek_selection
               ''data:image/jpeg;base64,QUJD'' ''Describe'')) = []
   \<and> fst (generateOpenAiImageQuery limited_collaborators deepseek_selection
            ''data:image/jpeg;base64,QUJD'' ''Describe'' (Some True)) =
       Inl (Error ''Rate limit exceeded'')
   \<and> filter is_provider_request
        (snd (generateOpenAiImageQuery limited_collaborators deepseek_selection
               ''data:image/jpeg;base64,QUJD'' ''Describe'' (Some True))) = []
   \<and> fst (generateOpenAiImageObjectQuery limited_collaborators deepseek_selection
            ''data:image/jpeg;base64,QUJD'' ''Describe'' ''caption-schema'' (Some True)) =
       Inl (Error ''Rate limit exceeded'')
   \<and> filter is_provider_request
        (snd (generateOpenAiImageObjectQuery limited_collaborators deepseek_selection
               ''data:image/jpeg;base64,QUJD'' ''Describe'' ''caption-schema'' (Some True))) = []"
proof -
  have r1: "rate_limit limited_collaborators (rate_limit_request None) =
              Some (Error ''Rate limit exceeded'')"
    and r2: "rate_limit limited_collaborators (rate_limit_request (Some True)) =
              Some (Error ''Rate limit exceeded'')"
    by (simp_all add: limited_collaborators_def)
  have c: "aiClient deepseek_selection \<noteq> None"
    by (simp add: deepseek_selection_def)
  show ?thesis
    using rate_limit_checked_first[where E = limited_collaborators
        and sel = deepseek_selection and img = "''data:image/jpeg;base64,QUJD''"
        and query = "''Describe''" and isBatch = "Some True" and sch = "''caption-schema''"
        and e = "Error ''Rate limit exceeded''"] r1 r2 c
    by simp
qed

text \<open>
  C4. Cleanup coverage. In streaming mode with an active client, once the rate-limit check
  has passed, the values pushed to the streamable value are exactly the fragments of the
  provider's text stream, in order, each passed through \<^verbatim>\<open>cleanUpAiTextResponse\<close>. In
  structured-object mode, when the provider resolves with an object, the returned object
  has the same keys and every value passed through \<^verbatim>\<open>cleanUpAiTextResponse\<close>.
\<close>

theorem cleanup_coverage:
  "(aiClient sel = Some client \<and> rate_limit E (rate_limit_request None) = None \<longrightarrow>
      (\<exists>st. fst (streamOpenAiImageQuery E sel img query) = Inr st \<and>
            updates st = map (cleanUpAiTextResponse E)
              (fst (streamText E \<lparr> model = LanguageModel client (MODEL sel),
                                   messages = image_text_messages E img query \<rparr>))))
   \<and> (aiClient sel = Some client \<and> rate_limit E (rate_limit_request isBatch) = None \<and>
      generateObject E \<lparr> model = LanguageModel client (MODEL sel),
                         messages = image_text_messages E img query,
                         schema = sch \<rparr> = Inr (Some obj) \<and>
      distinct (map fst obj) \<longrightarrow>
      fst (generateOpenAiImageObjectQuery E sel img query sch isBatch) =
        Inr (map (\<lambda>(k, v). (k, cleanUpAiTextResponse E v)) obj))"
proof (intro conjI impI)
  assume "aiClient sel = Some client \<and> rate_limit E (rate_limit_request None) = None"
  then show "\<exists>st. fst (streamOpenAiImageQuery E sel img query) = Inr st \<and>
            updates st = map (cleanUpAiTextResponse E)
              (fst (streamText E \<lparr> model = LanguageModel client (MODEL sel),
                                   messages = image_text_messages E img query \<rparr>))"
    by (simp add: stream_with_client)
next
  assume a: "aiClient sel = Some client \<and> rate_limit E (rate_limit_request isBatch) = None \<and>
      generateObject E \<lparr> model = LanguageModel client (MODEL sel),
                         messages = image_text_messages E img query,
                         schema = sch \<rparr> = Inr (Some obj) \<and>
      distinct (map fst obj)"
  hence "distinct (map fst (map (\<lambda>(k, v). (k, cleanUpAiTextResponse E v)) obj))"
    by (simp only: map_values_keys)
  hence "Object_fromEntries (map (\<lambda>(k, v). (k, cleanUpAiTextResponse E v)) obj) =
           map (\<lambda>(k, v). (k, cleanUpAiTextResponse E v)) obj"
    by (rule fromEntries_distinct)
  with a show "fst (generateOpenAiImageObjectQuery E sel img query sch isBatch) =
        Inr (map (\<lambda>(k, v). (k, cleanUpAiTextResponse E v)) obj)"
    by (simp add: object_with_client Object_entries_def)
qed

theorem cleanup_coverage_witness:
  "aiClient deepseek_selection =
     Some (CreateDeepSeek ''dk'' (Some ''https://api.deepseek.com/v1''))
   \<and> rate_limit example_collaborators (rate_limit_request None) = None
   \<and> (\<exists>st. fst (streamOpenAiImageQuery example_collaborators deepseek_selection
                  ''data:image/jpeg;base64,QUJD'' ''Describe'') = Inr st \<and>
            updates st = [''A '', ''cat''])
   \<and> fst (generateOpenAiImageObjectQuery example_collaborators deepseek_selection
            ''data:image/jpeg;base64,QUJD'' ''Describe'' ''caption-schema'' None) =
       Inr [(''title'', ''Cat''), (''caption'', ''A cat'')]"
proof -
  have c: "aiClient deepseek_selection =
             Some (CreateDeepSeek ''dk'' (Some ''https://api.deepseek.com/v1''))"
    by (simp add: deepseek_selection_def)
  have r: "rate_limit example_collaborators (rate_limit_request None) = None"
    by (simp add: example_collaborators_def quoted_def)
  note inst = cleanup_coverage[where sel = deepseek_selection
      and client = "CreateDeepSeek ''dk'' (Some ''https://api.deepseek.com/v1'')"
      and E = example_collaborators and img = "''data:image/jpeg;base64,QUJD''"
      and query = "''Describe''" and sch = "''caption-schema''" and isBatch = None
      and obj = "[(''title'', quoted ''Cat''), (''caption'', ''A cat'')]"]
  have s: "\<exists>st. fst (streamOpenAiImageQuery example_collaborators deepseek_selection
                  ''data:image/jpeg;base64,QUJD'' ''Describe'') = Inr st \<and>
            updates st = [''A '', ''cat'']"
    using inst[THEN conjunct1] c r
    by (simp add: example_collaborators_def quoted_def)
  have ob: "fst (generateOpenAiImageObjectQuery example_collaborators deepseek_selection
            ''data:image/jpeg;base64,QUJD'' ''Describe'' ''caption-schema'' None) =
       Inr [(''title'', ''Cat''), (''caption'', ''A cat'')]"
    using inst[THEN conjunct2] c r
    by (simp add: example_collaborators_def quoted_def)
  from c r s ob show ?thesis by blast
qed

text \<open>
  C5. The request descriptor built by \<^verbatim>\<open>getImageTextArgs\<close> holds, in one user message,
  the text prompt unchanged followed by the image passed through
  \<^verbatim>\<open>removeBase64Prefix\<close>; every request that the streaming, the text and the
  structured operation send to the provider carries exactly that message. This holds for
  every image string, with a data-URL prefix or without.
\<close>

theorem image_prefix_stripped:
  "(aiClient sel = Some client \<longrightarrow>
      getImageTextArgs E sel img query =
        Some \<lparr> model = LanguageModel client (MODEL sel),
               messages = [\<lparr> role = ''user'',
                             content = [TextPart query,
                                        ImagePart (removeBase64Prefix E img)] \<rparr>] \<rparr>)
   \<and> (\<forall>a. StreamTextCall a \<in> set (snd (streamOpenAiImageQuery E sel img query)) \<longrightarrow>
          messages a = [\<lparr> role = ''user'',
                          content = [TextPart query, ImagePart (removeBase64Prefix E img)] \<rparr>])
   \<and> (\<forall>a. GenerateTextCall a \<in> set (snd (generateOpenAiImageQuery E sel img query isBatch)) \<longrightarrow>
          messages a = [\<lparr> role = ''user'',
                          content = [TextPart query, ImagePart (removeBase64Prefix E img)] \<rparr>])
   \<and> (\<forall>a. GenerateObjectCall a \<in>
            set (snd (generateOpenAiImageObjectQuery E sel img query sch isBatch)) \<longrightarrow>
          messages a = [\<lparr> role = ''user'',
                          content = [TextPart query, ImagePart (removeBase64Prefix E img)] \<rparr>])"
proof -
  have args: "aiClient sel = Some client \<longrightarrow>
      getImageTextArgs E sel img query =
        Some \<lparr> model = LanguageModel client (MODEL sel),
               messages = [\<lparr> role = ''user'',
                             content = [TextPart query,
                                        ImagePart (removeBase64Prefix E img)] \<rparr>] \<rparr>"
    by (simp add: getImageTextArgs_def image_text_messages_def)
  have st: "\<forall>a. StreamTextCall a \<in> set (snd (streamOpenAiImageQuery E sel img query)) \<longrightarrow>
          messages a = [\<lparr> role = ''user'',
                          content = [TextPart query, ImagePart (removeBase64Prefix E img)] \<rparr>]"
    by (cases "rate_limit E (rate_limit_request None)"; cases "aiClient sel")
       (auto simp add: stream_rejected stream_no_client stream_with_client
          image_text_messages_def)
  have gen: "\<forall>a. GenerateTextCall a \<in>
            set (snd (generateOpenAiImageQuery E sel img query isBatch)) \<longrightarrow>
          messages a = [\<lparr> role = ''user'',
                          content = [TextPart query, ImagePart (removeBase64Prefix E img)] \<rparr>]"
    by (cases "rate_limit E (rate_limit_request isBatch)"; cases "aiClient sel")
       (auto simp add: generate_rejected generate_no_client generate_with_client
          image_text_messages_def)
  have ob: "\<forall>a. GenerateObjectCall a \<in>
            set (snd (generateOpenAiImageObjectQuery E sel img query sch isBatch)) \<longrightarrow>
          messages a = [\<lparr> role = ''user'',
                          content = [TextPart query, ImagePart (removeBase64Prefix E img)] \<rparr>]"
    by (cases "rate_limit E (rate_limit_request isBatch)"; cases "aiClient sel")
       (auto simp add: object_rejected object_no_client object_with_client
          image_text_messages_def)
  from args st gen ob show ?thesis by blast
qed

theorem image_prefix_stripped_witness:
  "aiClient deepseek_selection =
     Some (CreateDeepSeek ''dk'' (Some ''https://api.deepseek.com/v1''))
   \<and> getImageTextArgs example_collaborators deepseek_selection
        ''data:image/jpeg;base64,QUJD'' ''Describe'' =
       Some \<lparr> model = LanguageModel
                        (CreateDeepSeek ''dk'' (Some ''https://api.deepseek.com/v1''))
                        ''deepseek-chat'',
              messages = [\<lparr> role = ''user'',
                            content = [TextPart ''Describe'', ImagePart ''QUJD''] \<rparr>] \<rparr>
   \<and> GenerateObjectCall
        \<lparr> model = LanguageModel (CreateDeepSeek ''dk'' (Some ''https://api.deepseek.com/v1''))
                    ''deepseek-chat'',
          messages = image_text_messages example_collaborators
                       ''data:image/jpeg;base64,QUJD'' ''Describe'',
          schema = ''caption-schema'' \<rparr>
       \<in> set (snd (generateOpenAiImageObjectQuery example_collaborators deepseek_selection
                    ''data:image/jpeg;base64,QUJD'' ''Describe'' ''caption-schema'' None))
   \<and> image_text_messages example_collaborators ''data:image/jpeg;base64,QUJD'' ''Describe'' =
       [\<lparr> role = ''user'', content = [TextPart ''Describe'', ImagePart ''QUJD''] \<rparr>]"
proof -
  have c: "aiClient deepseek_selection =
             Some (CreateDeepSeek ''dk'' (Some ''https://api.deepseek.com/v1''))"
    and m: "MODEL deepseek_selection = ''deepseek-chat''"
    by (simp_all add: deepseek_selection_def)
  have r: "rate_limit example_collaborators (rate_limit_request None) = None"
    by (simp add: example_collaborators_def)
  have strip: "removeBase64Prefix example_collaborators ''data:image/jpeg;base64,QUJD'' = ''QUJD''"
    by (simp add: example_collaborators_def)
  note inst = image_prefix_stripped[where sel = deepseek_selection
      and client = "CreateDeepSeek ''dk'' (Some ''https://api.deepseek.com/v1'')"
      and E = example_collaborators and img = "''data:image/jpeg;base64,QUJD''"
      and query = "''Describe''" and sch = "''caption-schema''" and isBatch = None]
  have args: "getImageTextArgs example_collaborators deepseek_selection
        ''data:image/jpeg;base64,QUJD'' ''Describe'' =
       Some \<lparr> model = LanguageModel
                        (CreateDeepSeek ''dk'' (Some ''https://api.deepseek.com/v1''))
                        ''deepseek-chat'',
              messages = [\<lparr> role = ''user'',
                            content = [TextPart ''Describe'', ImagePart ''QUJD''] \<rparr>] \<rparr>"
    using inst[THEN conjunct1] c m strip by simp
  have sent: "GenerateObjectCall
        \<lparr> model = LanguageModel (CreateDeepSeek ''dk'' (Some ''https://api.deepseek.com/v1''))
                    ''deepseek-chat'',
          messages = image_text_messages example_collaborators
                       ''data:image/jpeg;base64,QUJD'' ''Describe'',
          schema = ''caption-schema'' \<rparr>
       \<in> set (snd (generateOpenAiImageObjectQuery example_collaborators deepseek_selection
                    ''data:image/jpeg;base64,QUJD'' ''Describe'' ''caption-schema'' None))"
    using c m r by (simp add: object_with_client)
  have msg: "image_text_messages example_collaborators
               ''data:image/jpeg;base64,QUJD'' ''Describe'' =
       [\<lparr> role = ''user'', content = [TextPart ''Describe'', ImagePart ''QUJD''] \<rparr>]"
    using inst[THEN conjunct2, THEN conjunct2, THEN conjunct2, rule_format, OF sent] strip
    by simp
  from c args sent msg show ?thesis by blast
qed

text \<open>
  C6. In the module with URL validation, a malformed provider base URL (set, but without
  the http or https protocol, or refused by the URL parser) makes \<^verbatim>\<open>normalizeBaseUrl\<close>
  log one warning and return \<^verbatim>\<open>undefined\<close>, which is also its result for an absent
  URL; no exception leaves \<^verbatim>\<open>normalizeBaseUrl\<close>. The module then loads exactly as if
  the URL were absent: a malformed OpenAI URL gives an OpenAI client without a base URL,
  that is, on its default; a malformed DeepSeek URL disables the DeepSeek client, and the
  active client is the OpenAI one if its key is set and none otherwise. Every query
  operation behaves as it does with the URL absent, so a call fails only where it fails
  with the URL absent: when DeepSeek was the only provider, the structured operation throws
  the no-client error.
  \<^verbatim>\<open>src/platforms/openai.ts\<close> has no validation: a base URL reaches the OpenAI client
  as it is configured.
\<close>

theorem malformed_base_url_treated_as_absent:
  assumes "malformed_base_url U u"
  shows "normalizeBaseUrl U (Some u) provider =
           (None, [if has_http_protocol u then warn_parse_error provider u
                   else warn_missing_protocol provider u])
       \<and> fst (normalizeBaseUrl U (Some u) provider) = fst (normalizeBaseUrl U None provider)
       \<and> load_module U (c\<lparr> DEEPSEEK_BASE_URL := Some u \<rparr>) =
           load_module U (c\<lparr> DEEPSEEK_BASE_URL := None \<rparr>)
       \<and> load_module U (c\<lparr> OPENAI_BASE_URL := Some u \<rparr>) =
           load_module U (c\<lparr> OPENAI_BASE_URL := None \<rparr>)
       \<and> deepseek (load_module U (c\<lparr> DEEPSEEK_BASE_URL := Some u \<rparr>)) = None
       \<and> aiClient (load_module U (c\<lparr> DEEPSEEK_BASE_URL := Some u \<rparr>)) =
           openai (load_module U (c\<lparr> DEEPSEEK_BASE_URL := Some u \<rparr>))
       \<and> openai (load_module U (c\<lparr> OPENAI_BASE_URL := Some u \<rparr>)) =
           (case OPENAI_SECRET_KEY c of
              None \<Rightarrow> None
            | Some key \<Rightarrow> if key \<noteq> [] then Some (CreateOpenAI key None) else None)
       \<and> streamOpenAiImageQuery E (load_module U (c\<lparr> DEEPSEEK_BASE_URL := Some u \<rparr>)) img query =
           streamOpenAiImageQuery E (load_module U (c\<lparr> DEEPSEEK_BASE_URL := None \<rparr>)) img query
       \<and> generateOpenAiImageQuery E (load_module U (c\<lparr> DEEPSEEK_BASE_URL := Some u \<rparr>))
             img query isBatch =
           generateOpenAiImageQuery E (load_module U (c\<lparr> DEEPSEEK_BASE_URL := None \<rparr>))
             img query isBatch
       \<and> generateOpenAiImageObjectQuery E (load_module U (c\<lparr> DEEPSEEK_BASE_URL := Some u \<rparr>))
             img query sch isBatch =
           generateOpenAiImageObjectQuery E (load_module U (c\<lparr> DEEPSEEK_BASE_URL := None \<rparr>))
             img query sch isBatch
       \<and> streamOpenAiImageQuery E (load_module U (c\<lparr> OPENAI_BASE_URL := Some u \<rparr>)) img query =
           streamOpenAiImageQuery E (load_module U (c\<lparr> OPENAI_BASE_URL := None \<rparr>)) img query
       \<and> generateOpenAiImageQuery E (load_module U (c\<lparr> OPENAI_BASE_URL := Some u \<rparr>))
             img query isBatch =
           generateOpenAiImageQuery E (load_module U (c\<lparr> OPENAI_BASE_URL := None \<rparr>))
             img query isBatch
       \<and> generateOpenAiImageObjectQuery E (load_module U (c\<lparr> OPENAI_BASE_URL := Some u \<rparr>))
             img query sch isBatch =
           generateOpenAiImageObjectQuery E (load_module U (c\<lparr> OPENAI_BASE_URL := None \<rparr>))
             img query sch isBatch
       \<and> load_warnings U (c\<lparr> DEEPSEEK_BASE_URL := Some u, OPENAI_BASE_URL := None \<rparr>) =
           [if has_http_protocol u then warn_parse_error (Some Deepseek) u
            else warn_missing_protocol (Some Deepseek) u]
       \<and> load_warnings U (c\<lparr> DEEPSEEK_BASE_URL := None, OPENAI_BASE_URL := Some u \<rparr>) =
           [if has_http_protocol u then warn_parse_error (Some Openai) u
            else warn_missing_protocol (Some Openai) u]
       \<and> (\<not> truthy (OPENAI_SECRET_KEY c) \<longrightarrow>
            aiClient (load_module U (c\<lparr> DEEPSEEK_BASE_URL := Some u \<rparr>)) = None)
       \<and> (\<not> truthy (OPENAI_SECRET_KEY c) \<and> rate_limit E (rate_limit_request isBatch) = None \<longrightarrow>
            fst (generateOpenAiImageObjectQuery E
                   (load_module U (c\<lparr> DEEPSEEK_BASE_URL := Some u \<rparr>)) img query sch isBatch) =
              Inl (Error ''No AI client available''))
       \<and> openai (load_module_openai_ts (c\<lparr> OPENAI_BASE_URL := Some u \<rparr>)) =
           (case OPENAI_SECRET_KEY c of
              None \<Rightarrow> None
            | Some key \<Rightarrow> if key \<noteq> [] then Some (CreateOpenAI key (Some u)) else None)"
proof -
  have n: "normalizeBaseUrl U (Some u) provider =
           (None, [if has_http_protocol u then warn_parse_error provider u
                   else warn_missing_protocol provider u])"
    by (rule normalize_malformed[OF assms])
  have same: "fst (normalizeBaseUrl U (Some u) provider) =
              fst (normalizeBaseUrl U None provider)"
    by (simp add: n normalize_absent)
  have d: "load_module U (c\<lparr> DEEPSEEK_BASE_URL := Some u \<rparr>) =
           load_module U (c\<lparr> DEEPSEEK_BASE_URL := None \<rparr>)"
    by (rule malformed_deepseek_url_absent[OF assms])
  have o: "load_module U (c\<lparr> OPENAI_BASE_URL := Some u \<rparr>) =
           load_module U (c\<lparr> OPENAI_BASE_URL := None \<rparr>)"
    by (rule malformed_openai_url_absent[OF assms])
  have nd: "normalizedDeepseekBaseUrl U (c\<lparr> DEEPSEEK_BASE_URL := Some u \<rparr>) = None"
    by (simp add: normalizedDeepseekBaseUrl_def normalize_malformed[OF assms])
  have no: "normalizedOpenaiBaseUrl U (c\<lparr> OPENAI_BASE_URL := Some u \<rparr>) = None"
    by (simp add: normalizedOpenaiBaseUrl_def normalize_malformed[OF assms])
  have off: "deepseek (load_module U (c\<lparr> DEEPSEEK_BASE_URL := Some u \<rparr>)) = None"
    using deepseek_disabled_without_url[OF nd] by simp
  have fall: "aiClient (load_module U (c\<lparr> DEEPSEEK_BASE_URL := Some u \<rparr>)) =
           openai (load_module U (c\<lparr> DEEPSEEK_BASE_URL := Some u \<rparr>))"
    by (rule aiClient_not_deepseek(1)) (simp add: nd truthy_def)
  have dflt: "openai (load_module U (c\<lparr> OPENAI_BASE_URL := Some u \<rparr>)) =
           (case OPENAI_SECRET_KEY c of
              None \<Rightarrow> None
            | Some key \<Rightarrow> if key \<noteq> [] then Some (CreateOpenAI key None) else None)"
    using openai_default_url[OF no] by simp
  have w: "load_warnings U (c\<lparr> DEEPSEEK_BASE_URL := Some u, OPENAI_BASE_URL := None \<rparr>) =
           [if has_http_protocol u then warn_parse_error (Some Deepseek) u
            else warn_missing_protocol (Some Deepseek) u]"
    and w': "load_warnings U (c\<lparr> DEEPSEEK_BASE_URL := None, OPENAI_BASE_URL := Some u \<rparr>) =
           [if has_http_protocol u then warn_parse_error (Some Openai) u
            else warn_missing_protocol (Some Openai) u]"
    by (simp_all add: load_warnings_def normalize_malformed[OF assms] normalize_absent)
  have none: "\<not> truthy (OPENAI_SECRET_KEY c) \<longrightarrow>
            aiClient (load_module U (c\<lparr> DEEPSEEK_BASE_URL := Some u \<rparr>)) = None"
    unfolding fall by (auto simp add: openai_client truthy_def split: option.splits)
  have throws: "\<not> truthy (OPENAI_SECRET_KEY c) \<and>
            rate_limit E (rate_limit_request isBatch) = None \<longrightarrow>
            fst (generateOpenAiImageObjectQuery E
                   (load_module U (c\<lparr> DEEPSEEK_BASE_URL := Some u \<rparr>)) img query sch isBatch) =
              Inl (Error ''No AI client available'')"
    using none by (simp add: object_no_client)
  have ne: "u \<noteq> []"
    using assms by (simp add: malformed_base_url_def)
  have kept: "openai (load_module_openai_ts (c\<lparr> OPENAI_BASE_URL := Some u \<rparr>)) =
           (case OPENAI_SECRET_KEY c of
              None \<Rightarrow> None
            | Some key \<Rightarrow> if key \<noteq> [] then Some (CreateOpenAI key (Some u)) else None)"
    using ne
    by (cases "OPENAI_SECRET_KEY c") (simp_all add: openai_ts_selection spread_baseURL_def truthy_def)
  have main: "normalizeBaseUrl U (Some u) provider =
           (None, [if has_http_protocol u then warn_parse_error provider u
                   else warn_missing_protocol provider u])
       \<and> fst (normalizeBaseUrl U (Some u) provider) = fst (normalizeBaseUrl U None provider)
       \<and> deepseek (load_module U (c\<lparr> DEEPSEEK_BASE_URL := Some u \<rparr>)) = None
       \<and> aiClient (load_module U (c\<lparr> DEEPSEEK_BASE_URL := Some u \<rparr>)) =
           openai (load_module U (c\<lparr> DEEPSEEK_BASE_URL := Some u \<rparr>))
       \<and> openai (load_module U (c\<lparr> OPENAI_BASE_URL := Some u \<rparr>)) =
           (case OPENAI_SECRET_KEY c of
              None \<Rightarrow> None
            | Some key \<Rightarrow> if key \<noteq> [] then Some (CreateOpenAI key None) else None)"
    using n same off fall dflt by blast
  have ops: "streamOpenAiImageQuery E (load_module U (c\<lparr> DEEPSEEK_BASE_URL := Some u \<rparr>)) img query =
           streamOpenAiImageQuery E (load_module U (c\<lparr> DEEPSEEK_BASE_URL := None \<rparr>)) img query
       \<and> generateOpenAiImageQuery E (load_module U (c\<lparr> DEEPSEEK_BASE_URL := Some u \<rparr>))
             img query isBatch =
           generateOpenAiImageQuery E (load_module U (c\<lparr> DEEPSEEK_BASE_URL := None \<rparr>))
             img query isBatch
       \<and> generateOpenAiImageObjectQuery E (load_module U (c\<lparr> DEEPSEEK_BASE_URL := Some u \<rparr>))
             img query sch isBatch =
           generateOpenAiImageObjectQuery E (load_module U (c\<lparr> DEEPSEEK_BASE_URL := None \<rparr>))
             img query sch isBatch
       \<and> streamOpenAiImageQuery E (load_module U (c\<lparr> OPENAI_BASE_URL := Some u \<rparr>)) img query =
           streamOpenAiImageQuery E (load_module U (c\<lparr> OPENAI_BASE_URL := None \<rparr>)) img query
       \<and> generateOpenAiImageQuery E (load_module U (c\<lparr> OPENAI_BASE_URL := Some u \<rparr>))
             img query isBatch =
           generateOpenAiImageQuery E (load_module U (c\<lparr> OPENAI_BASE_URL := None \<rparr>))
             img query isBatch
       \<and> generateOpenAiImageObjectQuery E (load_module U (c\<lparr> OPENAI_BASE_URL := Some u \<rparr>))
             img query sch isBatch =
           generateOpenAiImageObjectQuery E (load_module U (c\<lparr> OPENAI_BASE_URL := None \<rparr>))
             img query sch isBatch"
    by (simp only: d o)
  from main d o ops w w' none throws kept show ?thesis by blast
qed

theorem malformed_base_url_treated_as_absent_witness:
  "malformed_base_url simple_url_api ''api.deepseek.com''
   \<and> normalizeBaseUrl simple_url_api (Some ''api.deepseek.com'') (Some Deepseek) =
       (None, [''Invalid deepseek base URL (missing protocol): api.deepseek.com''])
   \<and> load_module simple_url_api malformed_config =
       load_module simple_url_api (malformed_config\<lparr> DEEPSEEK_BASE_URL := None \<rparr>)
   \<and> deepseek (load_module simple_url_api malformed_config) = None
   \<and> aiClient (load_module simple_url_api malformed_config) = Some (CreateOpenAI ''ok'' None)
   \<and> aiClient (load_module simple_url_api deepseek_malformed_config) = None
   \<and> generateOpenAiImageObjectQuery example_collaborators
        (load_module simple_url_api deepseek_malformed_config)
        ''data:image/jpeg;base64,QUJD'' ''Describe'' ''caption-schema'' None =
       generateOpenAiImageObjectQuery example_collaborators
        (load_module simple_url_api (deepseek_malformed_config\<lparr> DEEPSEEK_BASE_URL := None \<rparr>))
        ''data:image/jpeg;base64,QUJD'' ''Describe'' ''caption-schema'' None
   \<and> fst (generateOpenAiImageObjectQuery example_collaborators
            (load_module simple_url_api deepseek_malformed_config)
            ''data:image/jpeg;base64,QUJD'' ''Describe'' ''caption-schema'' None) =
       Inl (Error ''No AI client available'')
   \<and> malformed_base_url simple_url_api ''https://''
   \<and> normalizeBaseUrl simple_url_api (Some ''https://'') (Some Openai) =
       (None, [''Invalid openai base URL (parse error): https://''])
   \<and> openai (load_module simple_url_api (malformed_config\<lparr> OPENAI_BASE_URL := Some ''https://'' \<rparr>))
       = Some (CreateOpenAI ''ok'' None)
   \<and> openai (load_module_openai_ts (malformed_config\<lparr> OPENAI_BASE_URL := Some ''https://'' \<rparr>))
       = Some (CreateOpenAI ''ok'' (Some ''https://''))"
proof -
  have m1: "malformed_base_url simple_url_api ''api.deepseek.com''"
    by (simp add: malformed_base_url_def has_http_protocol_def startsWith_def)
  have m2: "malformed_base_url simple_url_api ''https://''"
    by (simp add: malformed_base_url_def has_http_protocol_def startsWith_def
        simple_url_api_def simple_parse_def simple_parse_after_def)
  have h1: "\<not> has_http_protocol ''api.deepseek.com''" and h2: "has_http_protocol ''https://''"
    by (simp_all add: has_http_protocol_def startsWith_def)
  have cfg: "malformed_config\<lparr> DEEPSEEK_BASE_URL := Some ''api.deepseek.com'' \<rparr> =
             malformed_config"
    and key: "OPENAI_SECRET_KEY malformed_config = Some ''ok''"
    by (simp_all add: malformed_config_def no_config_def)
  have cfg3: "deepseek_malformed_config\<lparr> DEEPSEEK_BASE_URL := Some ''api.deepseek.com'' \<rparr> =
              deepseek_malformed_config"
    and nokey: "\<not> truthy (OPENAI_SECRET_KEY deepseek_malformed_config)"
    by (simp_all add: deepseek_malformed_config_def no_config_def truthy_def)
  have pass: "rate_limit example_collaborators (rate_limit_request None) = None"
    by (simp add: example_collaborators_def)
  note i1 = malformed_base_url_treated_as_absent[OF m1, where provider = "Some Deepseek"
      and c = malformed_config, unfolded cfg]
  note i2 = malformed_base_url_treated_as_absent[OF m2, where provider = "Some Openai"
      and c = malformed_config]
  note i3 = malformed_base_url_treated_as_absent[OF m1, where provider = "Some Deepseek"
      and c = deepseek_malformed_config and E = example_collaborators
      and img = "''data:image/jpeg;base64,QUJD''" and query = "''Describe''"
      and sch = "''caption-schema''" and isBatch = None, unfolded cfg3]
  have a: "normalizeBaseUrl simple_url_api (Some ''api.deepseek.com'') (Some Deepseek) =
       (None, [''Invalid deepseek base URL (missing protocol): api.deepseek.com''])"
    using i1[THEN conjunct1] h1 by (simp add: warn_missing_protocol_def)
  have b: "load_module simple_url_api malformed_config =
       load_module simple_url_api (malformed_config\<lparr> DEEPSEEK_BASE_URL := None \<rparr>)"
    using i1[THEN conjunct2, THEN conjunct2, THEN conjunct1] .
  have c: "deepseek (load_module simple_url_api malformed_config) = None"
    using i1[THEN conjunct2, THEN conjunct2, THEN conjunct2, THEN conjunct2, THEN conjunct1] .
  have o: "openai (load_module simple_url_api malformed_config) = Some (CreateOpenAI ''ok'' None)"
    by (simp add: openai_client key safeOpenaiBaseUrl_def normalizedOpenaiBaseUrl_def
        malformed_config_def no_config_def normalize_absent spread_baseURL_def truthy_def)
  have d: "aiClient (load_module simple_url_api malformed_config) =
             Some (CreateOpenAI ''ok'' None)"
    using i1[THEN conjunct2, THEN conjunct2, THEN conjunct2, THEN conjunct2, THEN conjunct2,
        THEN conjunct1] o by simp
  have e: "normalizeBaseUrl simple_url_api (Some ''https://'') (Some Openai) =
       (None, [''Invalid openai base URL (parse error): https://''])"
    using i2[THEN conjunct1] h2 by (simp add: warn_parse_error_def)
  have f: "openai (load_module simple_url_api
                     (malformed_config\<lparr> OPENAI_BASE_URL := Some ''https://'' \<rparr>)) =
             Some (CreateOpenAI ''ok'' None)"
    using i2[THEN conjunct2, THEN conjunct2, THEN conjunct2, THEN conjunct2, THEN conjunct2,
        THEN conjunct2, THEN conjunct1] key by simp
  have g: "aiClient (load_module simple_url_api deepseek_malformed_config) = None"
    using i3 nokey by blast
  have h: "generateOpenAiImageObjectQuery example_collaborators
        (load_module simple_url_api deepseek_malformed_config)
        ''data:image/jpeg;base64,QUJD'' ''Describe'' ''caption-schema'' None =
       generateOpenAiImageObjectQuery example_collaborators
        (load_module simple_url_api (deepseek_malformed_config\<lparr> DEEPSEEK_BASE_URL := None \<rparr>))
        ''data:image/jpeg;base64,QUJD'' ''Describe'' ''caption-schema'' None"
    using i3 by blast
  have k: "fst (generateOpenAiImageObjectQuery example_collaborators
            (load_module simple_url_api deepseek_malformed_config)
            ''data:image/jpeg;base64,QUJD'' ''Describe'' ''caption-schema'' None) =
       Inl (Error ''No AI client available'')"
    using i3 nokey pass by blast
  have l: "openai (load_module_openai_ts
                     (malformed_config\<lparr> OPENAI_BASE_URL := Some ''https://'' \<rparr>)) =
             Some (CreateOpenAI ''ok'' (Some ''https://''))"
  proof -
    note i4 = malformed_base_url_treated_as_absent[OF m2, where provider = "Some Openai"
        and c = malformed_config and E = example_collaborators
        and img = "''data:image/jpeg;base64,QUJD''" and query = "''Describe''"
        and sch = "''caption-schema''" and isBatch = None]
    from i4 have "openai (load_module_openai_ts
                     (malformed_config\<lparr> OPENAI_BASE_URL := Some ''https://'' \<rparr>)) =
           (case OPENAI_SECRET_KEY malformed_config of
              None \<Rightarrow> None
            | Some key \<Rightarrow>
                if key \<noteq> [] then Some (CreateOpenAI key (Some ''https://'')) else None)"
      by blast
    then show ?thesis by (simp add: key)
  qed
  from m1 a b c d g h k m2 e f l show ?thesis by blast
qed

lemma deepseek_malformed_fields:
  "DEEPSEEK_API_KEY deepseek_malformed_config = Some ''dk''"
  "DEEPSEEK_BASE_URL deepseek_malformed_config = Some ''api.deepseek.com''"
  "OPENAI_SECRET_KEY deepseek_malformed_config = None"
  by (simp_all add: deepseek_malformed_config_def no_config_def)

lemma deepseek_malformed_no_client:
  "aiClient (load_module simple_url_api deepseek_malformed_config) = None"
  using aiClient_not_deepseek(1)[of deepseek_malformed_config simple_url_api]
  by (simp add: openai_client deepseek_malformed_fields normalizedDeepseekBaseUrl_def
      normalizeBaseUrl_def startsWith_def truthy_def)

lemma example_limiter_passes: "rate_limit example_collaborators (rate_limit_request b) = None"
  by (simp add: example_collaborators_def)

lemma example_object_cleaned:
  "Object_fromEntries
     (map (\<lambda>(k, v). (k, cleanUpAiTextResponse example_collaborators v))
        [(''title'', quoted ''Cat''), (''caption'', ''A cat'')]) =
   [(''title'', ''Cat''), (''caption'', ''A cat'')]"
  by (simp add: Object_fromEntries_def example_collaborators_def quoted_def)

text \<open>
  A malformed base URL can make a query call fail, and only the module with URL validation
  treats it as absent. With DeepSeek the only provider, the structured operation throws the
  no-client error when the DeepSeek base URL lacks its protocol and returns the cleaned
  object when the URL is well-formed. In \<^verbatim>\<open>src/platforms/openai.ts\<close> an OpenAI base
  URL without protocol stays in the client, which differs from the client made with the
  URL absent.
\<close>

theorem malformed_base_url_counterexample:
  "malformed_base_url simple_url_api ''api.deepseek.com''
   \<and> DEEPSEEK_BASE_URL deepseek_malformed_config = Some ''api.deepseek.com''
   \<and> fst (generateOpenAiImageObjectQuery example_collaborators
            (load_module simple_url_api deepseek_malformed_config)
            ''data:image/jpeg;base64,QUJD'' ''Describe'' ''caption-schema'' None) =
       Inl (Error ''No AI client available'')
   \<and> DEEPSEEK_BASE_URL deepseek_bare_config = Some ''https://api.deepseek.com''
   \<and> fst (generateOpenAiImageObjectQuery example_collaborators
            (load_module simple_url_api deepseek_bare_config)
            ''data:image/jpeg;base64,QUJD'' ''Describe'' ''caption-schema'' None) =
       Inr [(''title'', ''Cat''), (''caption'', ''A cat'')]
   \<and> openai (load_module_openai_ts
               (openai_only_config\<lparr> OPENAI_BASE_URL := Some ''api.openai.com'' \<rparr>)) =
       Some (CreateOpenAI ''ok'' (Some ''api.openai.com''))
   \<and> openai (load_module_openai_ts openai_only_config) = Some (CreateOpenAI ''ok'' None)"
proof -
  have m: "malformed_base_url simple_url_api ''api.deepseek.com''"
    by (simp add: malformed_base_url_def has_http_protocol_def startsWith_def)
  have bad: "fst (generateOpenAiImageObjectQuery example_collaborators
            (load_module simple_url_api deepseek_malformed_config)
            ''data:image/jpeg;base64,QUJD'' ''Describe'' ''caption-schema'' None) =
       Inl (Error ''No AI client available'')"
    by (simp add: object_no_client[OF example_limiter_passes deepseek_malformed_no_client])
  have client: "aiClient (load_module simple_url_api deepseek_bare_config) =
       Some (CreateDeepSeek ''dk'' (Some ''https://api.deepseek.com/v1''))"
    by (simp add: aiClient_deepseek[OF deepseek_bare_fields(1) _ bare_url_normalized])
  have good: "fst (generateOpenAiImageObjectQuery example_collaborators
            (load_module simple_url_api deepseek_bare_config)
            ''data:image/jpeg;base64,QUJD'' ''Describe'' ''caption-schema'' None) =
       Inr [(''title'', ''Cat''), (''caption'', ''A cat'')]"
  proof -
    have answer: "generateObject example_collaborators a =
                    Inr (Some [(''title'', quoted ''Cat''), (''caption'', ''A cat'')])" for a
      by (simp add: example_collaborators_def)
    show ?thesis
      using example_object_cleaned
      by (simp add: object_with_client[OF example_limiter_passes client] answer
          Object_entries_def)
  qed
  have kept: "openai (load_module_openai_ts
               (openai_only_config\<lparr> OPENAI_BASE_URL := Some ''api.openai.com'' \<rparr>)) =
       Some (CreateOpenAI ''ok'' (Some ''api.openai.com''))"
    by (rule openai_ts_base_url_unvalidated) (simp_all add: openai_only_fields)
  have dflt: "openai (load_module_openai_ts openai_only_config) = Some (CreateOpenAI ''ok'' None)"
    by (simp add: openai_ts_selection openai_only_fields spread_baseURL_def truthy_def)
  from m bad good kept dflt deepseek_malformed_fields(2) deepseek_bare_fields(2)
  show ?thesis by blast
qed

text \<open>
  C7. DeepSeek path normalisation. For every well-formed DeepSeek base URL (not empty, with
  the http or https protocol, accepted by the URL parser) \<^verbatim>\<open>normalizeBaseUrl\<close> returns a
  URL without logging, and the path of the returned URL ends with \<^verbatim>\<open>/v1\<close>: when the
  given path already ends with \<^verbatim>\<open>/v1\<close> the URL is returned unchanged; otherwise the path
  is set to the given path followed by \<^verbatim>\<open>v1\<close> when it ends with a slash and by
  \<^verbatim>\<open>/v1\<close> when it does not, and the URL is serialised again.
\<close>

theorem deepseek_path_normalization:
  assumes ok: "url_api_ok U"
    and u: "u \<noteq> []" "has_http_protocol u" "url_parse U u = Some x"
  shows "\<exists>r y. normalizeBaseUrl U (Some u) (Some Deepseek) = (Some r, [])
           \<and> url_parse U r = Some y \<and> endsWith (url_pathname U y) ''/v1''
           \<and> r = (if endsWith (url_pathname U x) ''/v1'' then u
                  else if endsWith (url_pathname U x) ''/''
                  then url_toString U (url_set_pathname U x (url_pathname U x @ ''v1''))
                  else url_toString U (url_set_pathname U x (url_pathname U x @ ''/v1'')))"
proof (cases "endsWith (url_pathname U x) ''/v1''")
  case True
  then show ?thesis using normalize_unchanged[OF u, of "Some Deepseek"] u by simp
next
  case False
  let ?q = "if endsWith (url_pathname U x) ''/'' then url_pathname U x @ ''v1''
            else url_pathname U x @ ''/v1''"
  from ok u(2,3) appended_ends_v1[of "url_pathname U x"]
  obtain y where "url_parse U (url_toString U (url_set_pathname U x ?q)) = Some y"
    and "endsWith (url_pathname U y) ''/v1''"
    unfolding url_api_ok_def by blast
  then show ?thesis using normalize_rewritten[OF u False] False
    by (cases "endsWith (url_pathname U x) ''/''") simp_all
qed

theorem deepseek_path_normalization_witness:
  "url_api_ok simple_url_api
   \<and> has_http_protocol ''https://api.deepseek.com/beta/?x=1''
   \<and> url_parse simple_url_api ''https://api.deepseek.com/beta/?x=1'' =
       Some \<lparr> origin = ''https://api.deepseek.com'', path = ''/beta/'', search_hash = ''?x=1'' \<rparr>
   \<and> normalizeBaseUrl simple_url_api (Some ''https://api.deepseek.com/beta/?x=1'')
        (Some Deepseek) = (Some ''https://api.deepseek.com/beta/v1?x=1'', [])
   \<and> (\<exists>y. url_parse simple_url_api ''https://api.deepseek.com/beta/v1?x=1'' = Some y \<and>
            endsWith (url_pathname simple_url_api y) ''/v1'')"
proof -
  have ne: "''https://api.deepseek.com/beta/?x=1'' \<noteq> []" by simp
  have http: "has_http_protocol ''https://api.deepseek.com/beta/?x=1''"
    by (simp add: has_http_protocol_def startsWith_def)
  from deepseek_path_normalization[OF simple_url_api_ok ne http beta_url_parsed]
  obtain r y where
    "normalizeBaseUrl simple_url_api (Some ''https://api.deepseek.com/beta/?x=1'')
       (Some Deepseek) = (Some r, [])"
    and y: "url_parse simple_url_api r = Some y" "endsWith (url_pathname simple_url_api y) ''/v1''"
    by blast
  hence "r = ''https://api.deepseek.com/beta/v1?x=1''"
    by (simp add: beta_url_normalized)
  with y have "\<exists>y. url_parse simple_url_api ''https://api.deepseek.com/beta/v1?x=1'' = Some y \<and>
            endsWith (url_pathname simple_url_api y) ''/v1''"
    by blast
  with simple_url_api_ok http beta_url_parsed beta_url_normalized show ?thesis by blast
qed

text \<open>
  C8. \<^verbatim>\<open>normalizeBaseUrl\<close> is idempotent: for every input (a string or
  \<^verbatim>\<open>undefined\<close>) and every provider tag, normalising the result again returns the same
  result. For the tags other than \<^verbatim>\<open>deepseek\<close> this needs nothing of the URL class; for
  \<^verbatim>\<open>deepseek\<close> it rests on the rewritten URL being parsed again with a path that ends
  in \<^verbatim>\<open>/v1\<close>.
\<close>

theorem normalizeBaseUrl_idempotent:
  assumes "url_api_ok U \<or> provider \<noteq> Some Deepseek"
  shows "fst (normalizeBaseUrl U (fst (normalizeBaseUrl U url provider)) provider) =
         fst (normalizeBaseUrl U url provider)"
proof (cases url)
  case None
  then show ?thesis by (simp add: normalize_absent)
next
  case (Some u)
  show ?thesis
  proof (cases "u = []")
    case True
    then show ?thesis using Some by (simp add: normalize_empty normalize_absent)
  next
    case ne: False
    show ?thesis
    proof (cases "has_http_protocol u")
      case False
      then show ?thesis using Some ne
        by (simp add: normalize_missing_protocol normalize_absent)
    next
      case http: True
      show ?thesis
      proof (cases "url_parse U u")
        case None
        then show ?thesis using Some ne http
          by (simp add: normalize_parse_error normalize_absent)
      next
        case (Some x)
        note parsed = this
        show ?thesis
        proof (cases "provider \<noteq> Some Deepseek \<or> endsWith (url_pathname U x) ''/v1''")
          case True
          then show ?thesis using \<open>url = Some u\<close> normalize_unchanged[OF ne http parsed True]
            by simp
        next
          case False
          hence prov: "provider = Some Deepseek" and nv: "\<not> endsWith (url_pathname U x) ''/v1''"
            by simp_all
          with assms have ok: "url_api_ok U" by simp
          let ?q = "if endsWith (url_pathname U x) ''/'' then url_pathname U x @ ''v1''
                    else url_pathname U x @ ''/v1''"
          let ?r = "url_toString U (url_set_pathname U x ?q)"
          have first: "normalizeBaseUrl U (Some u) (Some Deepseek) = (Some ?r, [])"
            using normalize_rewritten[OF ne http parsed nv] .
          from ok http parsed appended_ends_v1[of "url_pathname U x"]
          obtain y where r: "has_http_protocol ?r" "url_parse U ?r = Some y"
            "endsWith (url_pathname U y) ''/v1''"
            unfolding url_api_ok_def by blast
          have "normalizeBaseUrl U (Some ?r) (Some Deepseek) = (Some ?r, [])"
            using normalize_unchanged[OF has_http_nonempty[OF r(1)] r(1) r(2)] r(3) by simp
          then show ?thesis using first \<open>url = Some u\<close> prov by simp
        qed
      qed
    qed
  qed
qed

theorem normalizeBaseUrl_idempotent_witness:
  "url_api_ok simple_url_api
   \<and> fst (normalizeBaseUrl simple_url_api (Some ''https://api.deepseek.com/beta/?x=1'')
           (Some Deepseek)) = Some ''https://api.deepseek.com/beta/v1?x=1''
   \<and> fst (normalizeBaseUrl simple_url_api (Some ''https://api.deepseek.com/beta/v1?x=1'')
           (Some Deepseek)) = Some ''https://api.deepseek.com/beta/v1?x=1''"
  using normalizeBaseUrl_idempotent[where U = simple_url_api
      and url = "Some ''https://api.deepseek.com/beta/?x=1''" and provider = "Some Deepseek"]
    simple_url_api_ok
  by (simp add: beta_url_normalized)

text \<open>
  C9. Structured-object edge case: with an active client and the rate-limit check passed,
  when the schema-constrained call resolves with a null or undefined object,
  \<^verbatim>\<open>generateOpenAiImageObjectQuery\<close> resolves with the empty object; it neither throws
  nor returns null.
\<close>

theorem null_object_gives_empty:
  assumes "aiClient sel = Some client"
    and "rate_limit E (rate_limit_request isBatch) = None"
    and "generateObject E \<lparr> model = LanguageModel client (MODEL sel),
                             messages = image_text_messages E img query,
                             schema = sch \<rparr> = Inr None"
  shows "fst (generateOpenAiImageObjectQuery E sel img query sch isBatch) = Inr []"
  using assms
  by (simp add: object_with_client Object_entries_def Object_fromEntries_def)

theorem null_object_gives_empty_witness:
  "aiClient deepseek_selection =
     Some (CreateDeepSeek ''dk'' (Some ''https://api.deepseek.com/v1''))
   \<and> rate_limit null_object_collaborators (rate_limit_request None) = None
   \<and> generateObject null_object_collaborators
        \<lparr> model = LanguageModel (CreateDeepSeek ''dk'' (Some ''https://api.deepseek.com/v1''))
                    (MODEL deepseek_selection),
          messages = image_text_messages null_object_collaborators
                       ''data:image/jpeg;base64,QUJD'' ''Describe'',
          schema = ''caption-schema'' \<rparr> = Inr None
   \<and> fst (generateOpenAiImageObjectQuery null_object_collaborators deepseek_selection
            ''data:image/jpeg;base64,QUJD'' ''Describe'' ''caption-schema'' None) = Inr []"
proof -
  have c: "aiClient deepseek_selection =
             Some (CreateDeepSeek ''dk'' (Some ''https://api.deepseek.com/v1''))"
    by (simp add: deepseek_selection_def)
  have r: "rate_limit null_object_collaborators (rate_limit_request None) = None"
    by (simp add: null_object_collaborators_def example_collaborators_def)
  have g: "generateObject null_object_collaborators
             \<lparr> model = LanguageModel (CreateDeepSeek ''dk'' (Some ''https://api.deepseek.com/v1''))
                        (MODEL deepseek_selection),
               messages = image_text_messages null_object_collaborators
                            ''data:image/jpeg;base64,QUJD'' ''Describe'',
               schema = ''caption-schema'' \<rparr> = Inr None"
    by (simp add: null_object_collaborators_def)
  show ?thesis using null_object_gives_empty[OF c r g] c r g by simp
qed

text \<open>
  C10. Rate-limit parameters. Every operation, the connection test included, calls the rate
  limiter exactly once, with the identifier \<^verbatim>\<open>openai-image-query\<close>. The budget
  (\<^verbatim>\<open>tokens: 1200\<close>, \<^verbatim>\<open>duration: '1d'\<close>) is part of the call exactly when the caller
  passes \<^verbatim>\<open>isBatch\<close> as \<^verbatim>\<open>true\<close>; otherwise neither key is present. The streaming
  operation and the connection test pass no \<^verbatim>\<open>isBatch\<close>, so their calls carry no budget.
\<close>

theorem rate_limit_parameters:
  "ident (rate_limit_request isBatch) = ''openai-image-query''
   \<and> ((tokens (rate_limit_request isBatch) = Some 1200 \<and>
        duration (rate_limit_request isBatch) = Some ''1d'') = (isBatch = Some True))
   \<and> ((tokens (rate_limit_request isBatch) = None \<and>
        duration (rate_limit_request isBatch) = None) = (isBatch \<noteq> Some True))
   \<and> filter (\<lambda>ev. \<not> is_provider_request ev) (snd (streamOpenAiImageQuery E sel img query)) =
       [RateLimitCheck \<lparr> ident = ''openai-image-query'', tokens = None, duration = None \<rparr>]
   \<and> filter (\<lambda>ev. \<not> is_provider_request ev) (snd (testOpenAiConnection E sel)) =
       [RateLimitCheck \<lparr> ident = ''openai-image-query'', tokens = None, duration = None \<rparr>]
   \<and> filter (\<lambda>ev. \<not> is_provider_request ev)
         (snd (generateOpenAiImageQuery E sel img query isBatch)) =
       [RateLimitCheck (rate_limit_request isBatch)]
   \<and> filter (\<lambda>ev. \<not> is_provider_request ev)
         (snd (generateOpenAiImageObjectQuery E sel img query sch isBatch)) =
       [RateLimitCheck (rate_limit_request isBatch)]"
proof -
  have a: "ident (rate_limit_request isBatch) = ''openai-image-query''"
    by (simp add: rate_limit_request_def)
  have b: "(tokens (rate_limit_request isBatch) = Some 1200 \<and>
        duration (rate_limit_request isBatch) = Some ''1d'') = (isBatch = Some True)"
    by (simp add: rate_limit_request_def)
  have c: "(tokens (rate_limit_request isBatch) = None \<and>
        duration (rate_limit_request isBatch) = None) = (isBatch \<noteq> Some True)"
    by (simp add: rate_limit_request_def)
  have n: "rate_limit_request None =
             \<lparr> ident = ''openai-image-query'', tokens = None, duration = None \<rparr>"
    by (simp add: rate_limit_request_def)
  have s: "filter (\<lambda>ev. \<not> is_provider_request ev)
         (snd (streamOpenAiImageQuery E sel img query)) =
       [RateLimitCheck (rate_limit_request None)]"
    by (cases "rate_limit E (rate_limit_request None)"; cases "aiClient sel")
       (simp_all add: stream_rejected stream_no_client stream_with_client)
  have t: "filter (\<lambda>ev. \<not> is_provider_request ev) (snd (testOpenAiConnection E sel)) =
       [RateLimitCheck (rate_limit_request None)]"
    by (cases "rate_limit E (rate_limit_request None)"; cases "aiClient sel")
       (simp_all add: test_rejected test_no_client test_with_client)
  have g: "filter (\<lambda>ev. \<not> is_provider_request ev)
         (snd (generateOpenAiImageQuery E sel img query isBatch)) =
       [RateLimitCheck (rate_limit_request isBatch)]"
    by (cases "rate_limit E (rate_limit_request isBatch)"; cases "aiClient sel")
       (simp_all add: generate_rejected generate_no_client generate_with_client)
  have ob: "filter (\<lambda>ev. \<not> is_provider_request ev)
         (snd (generateOpenAiImageObjectQuery E sel img query sch isBatch)) =
       [RateLimitCheck (rate_limit_request isBatch)]"
    by (cases "rate_limit E (rate_limit_request isBatch)"; cases "aiClient sel")
       (simp_all add: object_rejected object_no_client object_with_client)
  show ?thesis using a b c s t g ob unfolding n by blast
qed

theorem rate_limit_parameters_witness:
  "rate_limit_request (Some True) =
     \<lparr> ident = ''openai-image-query'', tokens = Some 1200, duration = Some ''1d'' \<rparr>
   \<and> rate_limit_request (Some False) =
     \<lparr> ident = ''openai-image-query'', tokens = None, duration = None \<rparr>
   \<and> filter (\<lambda>ev. \<not> is_provider_request ev)
        (snd (generateOpenAiImageQuery example_collaborators deepseek_selection
               ''data:image/jpeg;base64,QUJD'' ''Describe'' (Some True))) =
       [RateLimitCheck \<lparr> ident = ''openai-image-query'', tokens = Some 1200,
                         duration = Some ''1d'' \<rparr>]
   \<and> filter (\<lambda>ev. \<not> is_provider_request ev)
        (snd (testOpenAiConnection example_collaborators deepseek_selection)) =
       [RateLimitCheck \<lparr> ident = ''openai-image-query'', tokens = None, duration = None \<rparr>]"
proof -
  have t: "rate_limit_request (Some True) =
     \<lparr> ident = ''openai-image-query'', tokens = Some 1200, duration = Some ''1d'' \<rparr>"
    and f: "rate_limit_request (Some False) =
     \<lparr> ident = ''openai-image-query'', tokens = None, duration = None \<rparr>"
    by (simp_all add: rate_limit_request_def)
  show ?thesis
    using rate_limit_parameters[where isBatch = "Some True" and E = example_collaborators
        and sel = deepseek_selection and img = "''data:image/jpeg;base64,QUJD''"
        and query = "''Describe''" and sch = "''caption-schema''"] t f
    by simp
qed

end
